theory Spec2Isabelle
  imports Main "HOL-Library.Word"
begin

unbundle bit_operations_syntax

section \<open>Nitro 5 Cooler Boost: the EC register control of core.py\<close>

text \<open>
  The module \<^verbatim>\<open>src/nitro_boost/core.py\<close> drives the fans through single-byte registers
  of the embedded controller (EC), reached through one of two filesystem nodes. The class
  \<^verbatim>\<open>NitroBoost\<close> keeps two attributes; everything else it touches is outside the
  process: the two nodes, the effective user id and the \<^verbatim>\<open>modprobe\<close> command. The
  model threads both through every method: a method of the class is a function from a
  state to its outcome and the state afterwards, and the outcome is the value the method
  returns or the exception that leaves it uncaught.
\<close>

subsection \<open>Constants\<close>

type_synonym byte = "8 word"

abbreviation EC_WRITE_ENABLE :: nat where "EC_WRITE_ENABLE \<equiv> 0x03"
abbreviation EC_GPU_FAN_MODE :: nat where "EC_GPU_FAN_MODE \<equiv> 0x21"
abbreviation EC_CPU_FAN_MODE :: nat where "EC_CPU_FAN_MODE \<equiv> 0x22"
abbreviation EC_CPU_FAN_PCT :: nat where "EC_CPU_FAN_PCT \<equiv> 0x37"
abbreviation EC_GPU_FAN_PCT :: nat where "EC_GPU_FAN_PCT \<equiv> 0x3A"
abbreviation EC_CPU_FAN_RPM_LO :: nat where "EC_CPU_FAN_RPM_LO \<equiv> 0x13"
abbreviation EC_CPU_FAN_RPM_HI :: nat where "EC_CPU_FAN_RPM_HI \<equiv> 0x14"
abbreviation EC_GPU_FAN_RPM_LO :: nat where "EC_GPU_FAN_RPM_LO \<equiv> 0x15"
abbreviation EC_GPU_FAN_RPM_HI :: nat where "EC_GPU_FAN_RPM_HI \<equiv> 0x16"

text \<open>
  The two interface paths: \<open>EC_SYS_PATH\<close> is \<^verbatim>\<open>/sys/kernel/debug/ec/ec0/io\<close> and
  \<open>EC_ACPI_PATH\<close> is \<^verbatim>\<open>/dev/ec\<close>.
\<close>

datatype ec_iface = EC_SYS_PATH | EC_ACPI_PATH

subsection \<open>The environment\<close>

text \<open>
  What \<^verbatim>\<open>subprocess.run\<close> can do: return a completed process with its return code,
  raise one of the two exceptions that \<^verbatim>\<open>_ensure_ec_sys\<close> catches, or raise
  something else (another \<^verbatim>\<open>OSError\<close>), which nothing in the module catches.
\<close>

datatype run_result = Completed int | TimeoutExpired | FileNotFoundError | OtherOSError

text \<open>
  Exceptions that leave a method of the class uncaught: the \<^verbatim>\<open>ValueError\<close> of
  \<^verbatim>\<open>bytes([value])\<close>, the \<^verbatim>\<open>PermissionError\<close> of an existence probe that is
  denied, an exception of \<^verbatim>\<open>subprocess.run\<close> that \<^verbatim>\<open>_ensure_ec_sys\<close> does not
  catch, and the \<^verbatim>\<open>AttributeError\<close> of a method call on \<^verbatim>\<open>None\<close>.
\<close>

datatype exn = ValueError | PermissionError | SubprocessError | AttributeError

text \<open>
  The trace of what the process did to its environment: an existence probe of a path
  (\<^verbatim>\<open>Path.exists\<close>), an \<^verbatim>\<open>open\<close> of a node for a read at an offset, an
  \<^verbatim>\<open>open\<close> of a node for a write of a value at an offset, a run of the module-loading
  command.
\<close>

datatype event =
    Probe ec_iface
  | ReadAccess ec_iface nat
  | WriteAccess ec_iface nat int
  | RunModprobe

text \<open>
  What the filesystem holds at a path, as the process sees it: nothing (\<^verbatim>\<open>stat\<close>
  fails with \<^verbatim>\<open>ENOENT\<close>), something it may not reach (\<^verbatim>\<open>stat\<close> and
  \<^verbatim>\<open>open\<close> fail with \<^verbatim>\<open>EACCES\<close>: a directory above the node is not searchable for
  the process, as the debug filesystem is for every user but root), or a file of bytes.
\<close>

datatype node = Absent | Denied | Present "byte list"

text \<open>
  \<open>faults\<close> is the schedule of I/O failures: each \<^verbatim>\<open>open\<close> takes the head, and
  \<open>True\<close> makes that access raise \<^verbatim>\<open>OSError\<close> (I/O error, node vanished
  meanwhile); an empty schedule means no failure. \<open>modprobe_cmd\<close> is the behaviour of the
  module-loading command: from the node at \<open>EC_SYS_PATH\<close> before the run to the outcome
  of the run and the node afterwards. The store changes only through the writes of the
  process and through that command.
\<close>

record world =
  euid :: nat
  sys_io :: node
  dev_ec :: node
  faults :: "bool list"
  modprobe_cmd :: "node \<Rightarrow> run_result \<times> node"
  events :: "event list"

text \<open>The attributes of a \<^verbatim>\<open>NitroBoost\<close> object, as \<^verbatim>\<open>__init__\<close> declares them.\<close>

record NitroBoost =
  ec_path :: "ec_iface option"
  use_ec_sys :: bool

record state =
  self :: NitroBoost
  env :: world

definition init :: NitroBoost where
  "init = \<lparr>ec_path = None, use_ec_sys = False\<rparr>"

text \<open>
  A method: from the state to the outcome and the state afterwards. \<open>ret\<close> returns a
  value; \<open>and_then\<close> runs a second step on the value of a first one, and an exception of
  the first step ends the method there.
\<close>

type_synonym 'a proc = "state \<Rightarrow> (exn + 'a) \<times> state"

definition ret :: "'a \<Rightarrow> 'a proc" where
  "ret x s = (Inr x, s)"

definition and_then :: "'a proc \<Rightarrow> ('a \<Rightarrow> 'b proc) \<Rightarrow> 'b proc" where
  "and_then m k s = (case m s of (Inl e, s1) \<Rightarrow> (Inl e, s1) | (Inr x, s1) \<Rightarrow> k x s1)"

definition emit :: "event \<Rightarrow> state \<Rightarrow> state" where
  "emit e s = s\<lparr>env := (env s)\<lparr>events := events (env s) @ [e]\<rparr>\<rparr>"

definition node_of :: "ec_iface \<Rightarrow> world \<Rightarrow> node" where
  "node_of p w = (case p of EC_SYS_PATH \<Rightarrow> sys_io w | EC_ACPI_PATH \<Rightarrow> dev_ec w)"

definition set_node :: "ec_iface \<Rightarrow> byte list \<Rightarrow> state \<Rightarrow> state" where
  "set_node p xs s =
     (case p of
        EC_SYS_PATH \<Rightarrow> s\<lparr>env := (env s)\<lparr>sys_io := Present xs\<rparr>\<rparr>
      | EC_ACPI_PATH \<Rightarrow> s\<lparr>env := (env s)\<lparr>dev_ec := Present xs\<rparr>\<rparr>)"

text \<open>
  \<^verbatim>\<open>path.exists()\<close>, traced. \<^verbatim>\<open>Path.exists\<close> turns the \<^verbatim>\<open>ENOENT\<close> of
  \<^verbatim>\<open>stat\<close> into \<^verbatim>\<open>False\<close> and raises every other \<^verbatim>\<open>OSError\<close> again, so a
  denied probe raises \<^verbatim>\<open>PermissionError\<close>. No call of it in the module stands inside a
  \<^verbatim>\<open>try\<close> that catches that.
\<close>

definition path_exists :: "ec_iface \<Rightarrow> bool proc" where
  "path_exists p s =
     (case node_of p (env s) of
        Absent \<Rightarrow> (Inr False, emit (Probe p) s)
      | Denied \<Rightarrow> (Inl PermissionError, emit (Probe p) s)
      | Present xs \<Rightarrow> (Inr True, emit (Probe p) s))"

definition next_fault :: "state \<Rightarrow> bool \<times> state" where
  "next_fault s =
     (case faults (env s) of
        [] \<Rightarrow> (False, s)
      | b # bs \<Rightarrow> (b, s\<lparr>env := (env s)\<lparr>faults := bs\<rparr>\<rparr>))"

text \<open>
  \<^verbatim>\<open>f.seek(offset); f.read(1)\<close> on a file of bytes: the byte at the offset, or the empty
  bytes object at or past the end of the file, which \<^verbatim>\<open>_read_ec\<close> turns into
  \<^verbatim>\<open>None\<close>. \<^verbatim>\<open>data[0]\<close> is a Python int in 0..255.
\<close>

definition peek :: "nat \<Rightarrow> byte list \<Rightarrow> int option" where
  "peek off xs = (if off < length xs then Some (uint (xs ! off)) else None)"

text \<open>
  \<^verbatim>\<open>f.seek(offset); f.write(bytes([value]))\<close> on a file of bytes: the byte at the
  offset is replaced; a write past the end extends the file, the gap filled with zeros.
\<close>

definition poke :: "nat \<Rightarrow> byte \<Rightarrow> byte list \<Rightarrow> byte list" where
  "poke off b xs =
     (if off < length xs then xs[off := b]
      else xs @ replicate (off - length xs) 0 @ [b])"

text \<open>
  The \<^verbatim>\<open>try\<close> block of \<^verbatim>\<open>_read_ec\<close>: open the node for reading, seek, read one byte.
  Every \<^verbatim>\<open>OSError\<close> (the scheduled fault, a node that is not there or not reachable) is
  caught and gives \<^verbatim>\<open>None\<close>.
\<close>

definition try_read :: "ec_iface \<Rightarrow> nat \<Rightarrow> (int option) proc" where
  "try_read p off s =
     (let (fault, s1) = next_fault (emit (ReadAccess p off) s) in
      if fault then (Inr None, s1)
      else (case node_of p (env s1) of
              Absent \<Rightarrow> (Inr None, s1)
            | Denied \<Rightarrow> (Inr None, s1)
            | Present xs \<Rightarrow> (Inr (peek off xs), s1)))"

text \<open>
  The \<^verbatim>\<open>try\<close> block of \<^verbatim>\<open>_write_ec_sys\<close> and \<^verbatim>\<open>_write_acpi_ec\<close>: open the node
  with \<^verbatim>\<open>"r+b"\<close>, seek, write one byte. An \<^verbatim>\<open>OSError\<close> is caught and gives
  \<^verbatim>\<open>False\<close>, leaving the node as it was. \<^verbatim>\<open>bytes([value])\<close> raises
  \<^verbatim>\<open>ValueError\<close> for a value outside 0..255, which the \<^verbatim>\<open>except\<close> clause does not
  catch.
\<close>

definition try_write :: "ec_iface \<Rightarrow> nat \<Rightarrow> int \<Rightarrow> bool proc" where
  "try_write p off v s =
     (let (fault, s1) = next_fault (emit (WriteAccess p off v) s) in
      if fault then (Inr False, s1)
      else (case node_of p (env s1) of
              Absent \<Rightarrow> (Inr False, s1)
            | Denied \<Rightarrow> (Inr False, s1)
            | Present xs \<Rightarrow>
                if 0 \<le> v \<and> v \<le> 255 then (Inr True, set_node p (poke off (word_of_int v) xs) s1)
                else (Inl ValueError, s1)))"

subsection \<open>Interface discovery\<close>

definition select_iface :: "ec_iface \<Rightarrow> bool \<Rightarrow> bool proc" where
  "select_iface p sys s = (Inr True, s\<lparr>self := \<lparr>ec_path = Some p, use_ec_sys = sys\<rparr>\<rparr>)"

definition detect_ec_interface :: "bool proc" where
  "detect_ec_interface =
     and_then (path_exists EC_SYS_PATH) (\<lambda>sys.
       if sys then select_iface EC_SYS_PATH True
       else
         and_then (path_exists EC_ACPI_PATH) (\<lambda>acpi.
           if acpi then select_iface EC_ACPI_PATH False
           else ret False))"

text \<open>
  \<^verbatim>\<open>subprocess.run(["modprobe", "ec_sys", "write_support=1"], ...)\<close>: the run is traced
  and the command does to the node at \<open>EC_SYS_PATH\<close> what \<open>modprobe_cmd\<close> says.
\<close>

definition run_modprobe :: "state \<Rightarrow> run_result \<times> state" where
  "run_modprobe s =
     (let s1 = emit RunModprobe s;
          (r, n) = modprobe_cmd (env s1) (sys_io (env s1))
      in (r, s1\<lparr>env := (env s1)\<lparr>sys_io := n\<rparr>\<rparr>))"

text \<open>
  The probe of \<^verbatim>\<open>_ensure_ec_sys\<close> stands inside its \<^verbatim>\<open>try\<close>, but the
  \<^verbatim>\<open>except\<close> clause names \<^verbatim>\<open>TimeoutExpired\<close> and \<^verbatim>\<open>FileNotFoundError\<close> only: a
  \<^verbatim>\<open>PermissionError\<close> of the probe passes through.
\<close>

definition ensure_ec_sys :: "bool proc" where
  "ensure_ec_sys s =
     (let (r, s1) = run_modprobe s in
      case r of
        Completed rc \<Rightarrow> if rc = 0 then path_exists EC_SYS_PATH s1 else (Inr False, s1)
      | TimeoutExpired \<Rightarrow> (Inr False, s1)
      | FileNotFoundError \<Rightarrow> (Inr False, s1)
      | OtherOSError \<Rightarrow> (Inl SubprocessError, s1))"

subsection \<open>Register access\<close>

definition write_ec_sys :: "nat \<Rightarrow> int \<Rightarrow> bool proc" where
  "write_ec_sys off v s =
     (case ec_path (self s) of
        None \<Rightarrow> (Inr False, s)
      | Some p \<Rightarrow>
          and_then (path_exists p) (\<lambda>ex.
            if \<not> ex then ret False else try_write p off v) s)"

definition write_acpi_ec :: "nat \<Rightarrow> int \<Rightarrow> bool proc" where
  "write_acpi_ec off v s =
     (case ec_path (self s) of
        None \<Rightarrow> (Inr False, s)
      | Some p \<Rightarrow>
          and_then (path_exists p) (\<lambda>ex.
            if \<not> ex then ret False else try_write p off v) s)"

text \<open>
  \<^verbatim>\<open>_write_ec\<close> and \<^verbatim>\<open>_read_ec\<close> run the discovery only while no path is cached.
  \<open>cached_exists\<close> is their \<^verbatim>\<open>self._ec_path.exists()\<close>: with no path cached it would
  be a call on \<^verbatim>\<open>None\<close>; that never happens, since a discovery that returned
  \<^verbatim>\<open>True\<close> has set the path (lemma \<open>detect_ec_interface_True\<close>).
\<close>

definition resolve :: "bool proc" where
  "resolve s = (if ec_path (self s) = None then detect_ec_interface s else (Inr True, s))"

definition cached_exists :: "bool proc" where
  "cached_exists s =
     (case ec_path (self s) of
        None \<Rightarrow> (Inl AttributeError, s)
      | Some p \<Rightarrow> path_exists p s)"

definition write_ec :: "nat \<Rightarrow> int \<Rightarrow> bool proc" where
  "write_ec off v =
     and_then resolve (\<lambda>found.
       if \<not> found then ret False
       else
         and_then cached_exists (\<lambda>ex.
           if \<not> ex then ret False
           else (\<lambda>s. if use_ec_sys (self s) then write_ec_sys off v s
                      else write_acpi_ec off v s)))"

definition read_ec :: "nat \<Rightarrow> (int option) proc" where
  "read_ec off =
     and_then resolve (\<lambda>found.
       if \<not> found then ret None
       else
         and_then cached_exists (\<lambda>ex.
           if \<not> ex then ret None
           else (\<lambda>s. case ec_path (self s) of
                        None \<Rightarrow> (Inl AttributeError, s)
                      | Some p \<Rightarrow> try_read p off s)))"

definition enable_write :: "bool proc" where
  "enable_write = write_ec EC_WRITE_ENABLE 0x11"

subsection \<open>Availability\<close>

text \<open>
  The two diagnostics of \<^verbatim>\<open>is_available\<close> and its \<^verbatim>\<open>"OK"\<close>: \<open>NeedsRoot\<close> is the
  message asking for root privileges, \<open>NoInterface\<close> the one with the boot-parameter
  instructions.
\<close>

datatype diag = NeedsRoot | NoInterface | OK

definition is_available :: "(bool \<times> diag) proc" where
  "is_available s =
     (if euid (env s) \<noteq> 0 then (Inr (False, NeedsRoot), s)
      else
        and_then ensure_ec_sys (\<lambda>loaded.
        and_then (if loaded then detect_ec_interface else ret False) (\<lambda>_.
        and_then detect_ec_interface (\<lambda>found.
          if \<not> found then ret (False, NoInterface)
          else ret (True, OK)))) s)"

subsection \<open>Setting the fans\<close>

definition set_cooler_boost_individual :: "bool \<Rightarrow> bool \<Rightarrow> bool proc" where
  "set_cooler_boost_individual cpu_max gpu_max =
     and_then enable_write (\<lambda>armed.
       if \<not> armed then ret False
       else
         and_then (read_ec EC_CPU_FAN_MODE) (\<lambda>cpu_mode.
         and_then (read_ec EC_GPU_FAN_MODE) (\<lambda>gpu_mode.
         and_then (write_ec EC_CPU_FAN_MODE (if cpu_max then 0x08 else 0x04)) (\<lambda>_.
         and_then (write_ec EC_GPU_FAN_MODE (if gpu_max then 0x20 else 0x10)) (\<lambda>_.
         ret True)))))"

definition set_cooler_boost :: "bool \<Rightarrow> bool proc" where
  "set_cooler_boost enabled = set_cooler_boost_individual enabled enabled"

definition set_custom_fans :: "int \<Rightarrow> int \<Rightarrow> bool proc" where
  "set_custom_fans cpu_percent gpu_percent =
     (if \<not> (0 \<le> cpu_percent \<and> cpu_percent \<le> 100) \<or> \<not> (0 \<le> gpu_percent \<and> gpu_percent \<le> 100)
      then ret False
      else
        and_then enable_write (\<lambda>armed.
          if \<not> armed then ret False
          else
            and_then (write_ec EC_GPU_FAN_MODE 0x30) (\<lambda>_.
            and_then (write_ec EC_CPU_FAN_MODE 0x0C) (\<lambda>_.
            and_then (write_ec EC_CPU_FAN_PCT cpu_percent) (\<lambda>_.
            and_then (write_ec EC_GPU_FAN_PCT gpu_percent) (\<lambda>_.
            ret True))))))"

definition set_custom_fan :: "int \<Rightarrow> bool proc" where
  "set_custom_fan percent = set_custom_fans percent percent"

subsection \<open>Reading the fans\<close>

definition get_cooler_boost_status :: "(bool option) proc" where
  "get_cooler_boost_status =
     and_then (read_ec EC_CPU_FAN_MODE) (\<lambda>cpu_mode.
     and_then (read_ec EC_GPU_FAN_MODE) (\<lambda>gpu_mode.
       if cpu_mode = None \<or> gpu_mode = None then ret None
       else ret (Some (cpu_mode = Some 0x08 \<and> gpu_mode = Some 0x20))))"

definition read_fan_rpm_ec :: "nat \<Rightarrow> nat option \<Rightarrow> (int option) proc" where
  "read_fan_rpm_ec lo_reg hi_reg =
     and_then (read_ec lo_reg) (\<lambda>lo_read.
       case lo_read of
         None \<Rightarrow> ret None
       | Some lo \<Rightarrow>
           and_then
             (case hi_reg of
                Some r \<Rightarrow>
                  and_then (read_ec r) (\<lambda>hi_read.
                    case hi_read of
                      Some hi \<Rightarrow> ret (push_bit 8 hi OR lo)
                    | None \<Rightarrow> ret lo)
              | None \<Rightarrow> ret lo)
             (\<lambda>val. if val = 0 \<or> val > 65000 then ret None else ret (Some val)))"

text \<open>The dictionary that \<^verbatim>\<open>get_fan_info\<close> returns, one field for each key.\<close>

record fan_info =
  mode :: string
  cpu_percent :: "int option"
  gpu_percent :: "int option"
  cpu_rpm :: "int option"
  gpu_rpm :: "int option"
  cooler_boost :: "bool option"
  cpu_cooler_boost :: "bool option"
  gpu_cooler_boost :: "bool option"

text \<open>
  The parts of \<^verbatim>\<open>get_fan_info\<close> that touch nothing: the aggregate mode from the two
  mode reads, the boost flag of one domain, and the RPM to report from the direct RPM and
  the percent (\<^verbatim>\<open>int(pct * 55)\<close> when there is no direct RPM and the percent is
  there).
\<close>

definition mode_label :: "int option \<Rightarrow> int option \<Rightarrow> string" where
  "mode_label cpu_mode gpu_mode =
     (if cpu_mode \<noteq> None \<and> gpu_mode \<noteq> None then
        (if cpu_mode = Some 0x08 \<and> gpu_mode = Some 0x20 then ''max''
         else if cpu_mode = Some 0x04 \<and> gpu_mode = Some 0x10 then ''auto''
         else if cpu_mode = Some 0x0C \<and> gpu_mode = Some 0x30 then ''custom''
         else ''unknown'')
      else ''unknown'')"

definition boost_flag :: "int \<Rightarrow> int option \<Rightarrow> bool option" where
  "boost_flag code m = (case m of None \<Rightarrow> None | Some c \<Rightarrow> Some (c = code))"

definition rpm_or_estimate :: "int option \<Rightarrow> int option \<Rightarrow> int option" where
  "rpm_or_estimate rpm pct =
     (case rpm of
        Some v \<Rightarrow> Some v
      | None \<Rightarrow> (case pct of Some p \<Rightarrow> Some (p * 55) | None \<Rightarrow> None))"

definition get_fan_info :: "fan_info proc" where
  "get_fan_info =
     and_then (read_ec EC_CPU_FAN_MODE) (\<lambda>cpu_mode.
     and_then (read_ec EC_GPU_FAN_MODE) (\<lambda>gpu_mode.
     and_then (read_ec EC_CPU_FAN_PCT) (\<lambda>cpu_pct.
     and_then (read_ec EC_GPU_FAN_PCT) (\<lambda>gpu_pct.
     and_then (read_fan_rpm_ec EC_CPU_FAN_RPM_LO (Some EC_CPU_FAN_RPM_HI)) (\<lambda>cpu_rpm0.
     and_then (read_fan_rpm_ec EC_GPU_FAN_RPM_LO (Some EC_GPU_FAN_RPM_HI)) (\<lambda>gpu_rpm0.
     and_then get_cooler_boost_status (\<lambda>boost.
       ret \<lparr>mode = mode_label cpu_mode gpu_mode,
            cpu_percent = cpu_pct,
            gpu_percent = gpu_pct,
            cpu_rpm = rpm_or_estimate cpu_rpm0 cpu_pct,
            gpu_rpm = rpm_or_estimate gpu_rpm0 gpu_pct,
            cooler_boost = boost,
            cpu_cooler_boost = boost_flag 0x08 cpu_mode,
            gpu_cooler_boost = boost_flag 0x20 gpu_mode\<rparr>)))))))"

subsection \<open>Simulated environments\<close>

text \<open>
  \<open>first_probe\<close> is the path an access probes first: the cached one, or
  \<open>EC_SYS_PATH\<close>, where the discovery starts.
\<close>

definition first_probe :: "state \<Rightarrow> ec_iface" where
  "first_probe s = (case ec_path (self s) of Some p \<Rightarrow> p | None \<Rightarrow> EC_SYS_PATH)"

text \<open>
  A store that is quiet and reachable: no failure is scheduled and the node the object
  would use is a file. \<open>store_of\<close> is that file: the cached one, or the one a
  discovery would select. In such a state every write succeeds and every read returns the
  byte last written.
\<close>

definition store_of :: "state \<Rightarrow> byte list option" where
  "store_of s =
     (case ec_path (self s) of
        Some q \<Rightarrow> (case node_of q (env s) of Present xs \<Rightarrow> Some xs | _ \<Rightarrow> None)
      | None \<Rightarrow>
          (case sys_io (env s) of
             Present xs \<Rightarrow> Some xs
           | Denied \<Rightarrow> None
           | Absent \<Rightarrow> (case dev_ec (env s) of Present xs \<Rightarrow> Some xs | _ \<Rightarrow> None)))"

definition calm :: "state \<Rightarrow> byte list \<Rightarrow> bool" where
  "calm s xs = (faults (env s) = [] \<and> store_of s = Some xs)"

text \<open>A path is cached and its node is a file: what a successful access leaves behind.\<close>

definition settled :: "state \<Rightarrow> bool" where
  "settled s =
     (case ec_path (self s) of
        None \<Rightarrow> False
      | Some p \<Rightarrow> (case node_of p (env s) of Present xs \<Rightarrow> True | _ \<Rightarrow> False))"

text \<open>
  Concrete environments for the examples: the process runs as root, the module-loading
  command returns 0 and changes nothing, the trace is empty. \<open>sim p sys acpi fs\<close> has
  the cached path \<open>p\<close>, the two nodes and the failure schedule \<open>fs\<close>. \<open>as_user u\<close>
  gives the process the effective user id \<open>u\<close>.
\<close>

definition idle_modprobe :: "node \<Rightarrow> run_result \<times> node" where
  "idle_modprobe n = (Completed 0, n)"

definition sim :: "ec_iface option \<Rightarrow> node \<Rightarrow> node \<Rightarrow> bool list \<Rightarrow> state" where
  "sim p sys acpi fs =
     \<lparr>self = \<lparr>ec_path = p, use_ec_sys = (p = Some EC_SYS_PATH)\<rparr>,
      env = \<lparr>euid = 0, sys_io = sys, dev_ec = acpi, faults = fs,
             modprobe_cmd = idle_modprobe, events = []\<rparr>\<rparr>"

definition as_user :: "nat \<Rightarrow> state \<Rightarrow> state" where
  "as_user u s = s\<lparr>env := (env s)\<lparr>euid := u\<rparr>\<rparr>"

definition zeros :: "byte list" where
  "zeros = replicate 64 0"

definition rpm_store :: "byte list" where
  "rpm_store = (replicate 64 0)[0x13 := 0x10, 0x14 := 0x0E, 0x37 := 40, 0x3A := 50]"

section \<open>Properties\<close>

subsection \<open>Evaluation and basic facts\<close>

lemmas run_defs = sim_def as_user_def zeros_def rpm_store_def idle_modprobe_def
  ret_def and_then_def emit_def node_of_def set_node_def path_exists_def next_fault_def
  peek_def poke_def try_read_def try_write_def select_iface_def detect_ec_interface_def
  run_modprobe_def ensure_ec_sys_def write_ec_sys_def write_acpi_ec_def resolve_def
  cached_exists_def write_ec_def read_ec_def enable_write_def is_available_def
  set_cooler_boost_individual_def set_cooler_boost_def set_custom_fans_def set_custom_fan_def
  get_cooler_boost_status_def read_fan_rpm_ec_def mode_label_def boost_flag_def
  rpm_or_estimate_def get_fan_info_def first_probe_def Let_def

lemma and_then_Inr: "m s = (Inr x, s1) \<Longrightarrow> and_then m k s = k x s1"
  by (simp add: and_then_def)

lemma and_then_Inl: "m s = (Inl e, s1) \<Longrightarrow> and_then m k s = (Inl e, s1)"
  by (simp add: and_then_def)

lemma and_then_InrD:
  "and_then m k s = (Inr y, s') \<Longrightarrow> \<exists>x s1. m s = (Inr x, s1) \<and> k x s1 = (Inr y, s')"
  by (auto simp: and_then_def split: prod.splits sum.splits)

lemma detect_ec_interface_True:
  "detect_ec_interface s = (Inr True, s') \<Longrightarrow> ec_path (self s') \<noteq> None"
  by (auto simp: detect_ec_interface_def and_then_def path_exists_def select_iface_def ret_def
           split: node.splits if_splits)

lemma peek_range: "peek off xs = Some v \<Longrightarrow> 0 \<le> v \<and> v \<le> 255"
proof -
  assume a: "peek off xs = Some v"
  then have "v = uint (xs ! off)" by (auto simp: peek_def split: if_splits)
  moreover have "uint (xs ! off) < 2 ^ 8" using uint_bounded [of "xs ! off"] by simp
  ultimately show ?thesis by simp
qed

lemma try_read_range: "fst (try_read p off s) = Inr (Some v) \<Longrightarrow> 0 \<le> v \<and> v \<le> 255"
  by (auto simp: try_read_def Let_def split: prod.splits if_splits node.splits dest: peek_range)

lemma read_ec_range: "fst (read_ec off s) = Inr (Some v) \<Longrightarrow> 0 \<le> v \<and> v \<le> 255"
  by (auto simp: read_ec_def and_then_def ret_def
           split: prod.splits sum.splits if_splits option.splits
           dest: try_read_range [of _ _ _ v])

lemma peek_poke_same: "peek off (poke off b xs) = Some (uint b)"
  by (simp add: peek_def poke_def nth_append)

lemma peek_poke_other:
  "off \<noteq> off' \<Longrightarrow> peek off xs = Some v \<Longrightarrow> peek off (poke off' b xs) = Some v"
  by (auto simp: peek_def poke_def nth_append split: if_splits)

lemma uint_percent: "0 \<le> p \<Longrightarrow> p \<le> 255 \<Longrightarrow> uint (word_of_int p :: byte) = p"
  by (simp add: uint_word_of_int_eq take_bit_int_eq_self)

subsection \<open>Outcomes of a register write\<close>

lemma try_write_outcome:
  "0 \<le> v \<Longrightarrow> v \<le> 255 \<Longrightarrow> fst (try_write p off v s) = Inr True \<or> fst (try_write p off v s) = Inr False"
  by (auto simp: try_write_def Let_def split: prod.splits node.splits)

lemma write_ec_sys_outcome:
  "0 \<le> v \<Longrightarrow> v \<le> 255 \<Longrightarrow>
   fst (write_ec_sys off v s) = Inr True \<or> fst (write_ec_sys off v s) = Inr False \<or>
   fst (write_ec_sys off v s) = Inl PermissionError"
  using try_write_outcome [of v]
  by (auto simp: write_ec_sys_def and_then_def path_exists_def ret_def split: option.splits node.splits)

lemma write_acpi_ec_eq: "write_acpi_ec off v s = write_ec_sys off v s"
  by (simp add: write_acpi_ec_def write_ec_sys_def)

lemma resolve_outcome:
  "resolve s = (r, s1) \<Longrightarrow>
     r = Inl PermissionError \<or> r = Inr False \<or> (r = Inr True \<and> ec_path (self s1) \<noteq> None)"
  by (auto simp: resolve_def detect_ec_interface_def and_then_def path_exists_def
        select_iface_def ret_def split: node.splits if_splits)

lemma write_ec_outcome:
  assumes "0 \<le> v" "v \<le> 255"
  shows "fst (write_ec off v s) = Inr True \<or> fst (write_ec off v s) = Inr False \<or>
         fst (write_ec off v s) = Inl PermissionError"
proof -
  obtain r s1 where r: "resolve s = (r, s1)" by (cases "resolve s")
  from resolve_outcome [OF r] show ?thesis
  proof (elim disjE conjE)
    assume "r = Inl PermissionError" with r show ?thesis by (simp add: write_ec_def and_then_def)
  next
    assume "r = Inr False" with r show ?thesis by (simp add: write_ec_def and_then_def ret_def)
  next
    assume t: "r = Inr True" and p: "ec_path (self s1) \<noteq> None"
    then obtain q where q: "ec_path (self s1) = Some q" by auto
    have pe: "self (snd (path_exists q s1)) = self s1"
      by (simp add: path_exists_def emit_def split: node.splits)
    show ?thesis
      using r t q write_ec_sys_outcome [OF assms, of off "emit (Probe q) s1"]
      by (auto simp: write_ec_def and_then_def ret_def cached_exists_def path_exists_def
            write_acpi_ec_eq split: node.splits)
  qed
qed

lemma write_ec_denied:
  "node_of (first_probe s) (env s) = Denied \<Longrightarrow> fst (write_ec off v s) = Inl PermissionError"
  by (cases "ec_path (self s)")
     (auto simp: first_probe_def write_ec_def and_then_def resolve_def detect_ec_interface_def
        cached_exists_def path_exists_def node_of_def)

lemma read_ec_denied:
  "node_of (first_probe s) (env s) = Denied \<Longrightarrow> fst (read_ec off s) = Inl PermissionError"
  by (cases "ec_path (self s)")
     (auto simp: first_probe_def read_ec_def and_then_def resolve_def detect_ec_interface_def
        cached_exists_def path_exists_def node_of_def)

subsection \<open>Accesses once a path is cached and its node is a file\<close>

lemma settled_emit [simp]: "settled (emit e s) = settled s"
  by (simp add: settled_def emit_def node_of_def split: option.splits ec_iface.splits)

lemma write_ec_True_settled:
  assumes "write_ec off v s = (Inr True, s1)"
  shows "settled s1"
  using assms
  by (cases "ec_path (self s)")
     (auto simp: write_ec_def and_then_def ret_def resolve_def detect_ec_interface_def
        select_iface_def cached_exists_def path_exists_def write_ec_sys_def write_acpi_ec_def
        try_write_def next_fault_def emit_def set_node_def node_of_def settled_def Let_def
        split: node.splits if_splits list.splits ec_iface.splits)

lemma write_ec_settled:
  assumes "settled s" "0 \<le> v" "v \<le> 255"
  shows "\<exists>b s1. write_ec off v s = (Inr b, s1) \<and> settled s1"
proof -
  from assms(1) obtain p xs where p: "ec_path (self s) = Some p" "node_of p (env s) = Present xs"
    by (auto simp: settled_def split: option.splits node.splits)
  show ?thesis
    using p assms(2,3)
    by (cases p; cases "faults (env s)")
       (auto simp: write_ec_def and_then_def ret_def resolve_def
          cached_exists_def path_exists_def write_ec_sys_def write_acpi_ec_def
          try_write_def next_fault_def emit_def set_node_def node_of_def settled_def Let_def)
qed

lemma read_ec_settled:
  assumes "settled s"
  shows "\<exists>r s1. read_ec off s = (Inr r, s1) \<and> settled s1"
proof -
  from assms(1) obtain p xs where p: "ec_path (self s) = Some p" "node_of p (env s) = Present xs"
    by (auto simp: settled_def split: option.splits node.splits)
  show ?thesis
    using p
    by (cases p; cases "faults (env s)")
       (auto simp: read_ec_def and_then_def ret_def resolve_def
          cached_exists_def path_exists_def
          try_read_def next_fault_def emit_def node_of_def settled_def Let_def)
qed

lemma boost_tail_returns:
  assumes "settled s1" "0 \<le> a" "a \<le> 255" "0 \<le> b" "b \<le> 255"
  shows "\<exists>s5. (and_then (read_ec EC_CPU_FAN_MODE) (\<lambda>cpu_mode.
         and_then (read_ec EC_GPU_FAN_MODE) (\<lambda>gpu_mode.
         and_then (write_ec EC_CPU_FAN_MODE a) (\<lambda>_.
         and_then (write_ec EC_GPU_FAN_MODE b) (\<lambda>_.
         ret True))))) s1 = (Inr True, s5)"
proof -
  obtain r2 s2 where r2: "read_ec EC_CPU_FAN_MODE s1 = (Inr r2, s2)" "settled s2"
    using read_ec_settled [OF assms(1)] by blast
  obtain r3 s3 where r3: "read_ec EC_GPU_FAN_MODE s2 = (Inr r3, s3)" "settled s3"
    using read_ec_settled [OF r2(2)] by blast
  obtain b4 s4 where w4: "write_ec EC_CPU_FAN_MODE a s3 = (Inr b4, s4)" "settled s4"
    using write_ec_settled [OF r3(2) assms(2,3)] by blast
  obtain b5 s5 where w5: "write_ec EC_GPU_FAN_MODE b s4 = (Inr b5, s5)" "settled s5"
    using write_ec_settled [OF w4(2) assms(4,5)] by blast
  show ?thesis
    by (simp add: and_then_def r2(1) r3(1) w4(1) w5(1) ret_def)
qed

lemma custom_tail_returns:
  assumes "settled s1" "0 \<le> cp" "cp \<le> 100" "0 \<le> gp" "gp \<le> 100"
  shows "\<exists>s5. (and_then (write_ec EC_GPU_FAN_MODE 0x30) (\<lambda>_.
            and_then (write_ec EC_CPU_FAN_MODE 0x0C) (\<lambda>_.
            and_then (write_ec EC_CPU_FAN_PCT cp) (\<lambda>_.
            and_then (write_ec EC_GPU_FAN_PCT gp) (\<lambda>_.
            ret True))))) s1 = (Inr True, s5)"
proof -
  have c: "cp \<le> 255" and g: "gp \<le> 255" using assms by simp_all
  obtain b2 s2 where w2: "write_ec EC_GPU_FAN_MODE 0x30 s1 = (Inr b2, s2)" "settled s2"
    using write_ec_settled [OF assms(1), of "0x30" EC_GPU_FAN_MODE] by auto
  obtain b3 s3 where w3: "write_ec EC_CPU_FAN_MODE 0x0C s2 = (Inr b3, s3)" "settled s3"
    using write_ec_settled [OF w2(2), of "0x0C" EC_CPU_FAN_MODE] by auto
  obtain b4 s4 where w4: "write_ec EC_CPU_FAN_PCT cp s3 = (Inr b4, s4)" "settled s4"
    using write_ec_settled [OF w3(2) assms(2) c] by blast
  obtain b5 s5 where w5: "write_ec EC_GPU_FAN_PCT gp s4 = (Inr b5, s5)" "settled s5"
    using write_ec_settled [OF w4(2) assms(4) g] by blast
  show ?thesis
    using w2(1) w3(1) by (simp add: and_then_def w4(1) w5(1) ret_def)
qed

lemma set_cooler_boost_individual_gate:
  "fst (set_cooler_boost_individual cpu_max gpu_max s) = fst (write_ec EC_WRITE_ENABLE 0x11 s) \<and>
   (fst (write_ec EC_WRITE_ENABLE 0x11 s) \<noteq> Inr True \<longrightarrow>
      snd (set_cooler_boost_individual cpu_max gpu_max s) = snd (write_ec EC_WRITE_ENABLE 0x11 s))"
proof -
  obtain r s1 where w: "write_ec EC_WRITE_ENABLE 0x11 s = (r, s1)"
    by (cases "write_ec EC_WRITE_ENABLE 0x11 s")
  have o: "r = Inr True \<or> r = Inr False \<or> r = Inl PermissionError"
    using write_ec_outcome [of "0x11" EC_WRITE_ENABLE s] w by simp
  have u: "set_cooler_boost_individual cpu_max gpu_max s =
     (case r of
        Inl e \<Rightarrow> (Inl e, s1)
      | Inr armed \<Rightarrow>
          if \<not> armed then (Inr False, s1)
          else (and_then (read_ec EC_CPU_FAN_MODE) (\<lambda>cpu_mode.
         and_then (read_ec EC_GPU_FAN_MODE) (\<lambda>gpu_mode.
         and_then (write_ec EC_CPU_FAN_MODE (if cpu_max then 0x08 else 0x04)) (\<lambda>_.
         and_then (write_ec EC_GPU_FAN_MODE (if gpu_max then 0x20 else 0x10)) (\<lambda>_.
         ret True))))) s1)"
    using w
    by (simp add: set_cooler_boost_individual_def enable_write_def and_then_def [of "write_ec EC_WRITE_ENABLE 0x11"]
          ret_def split: sum.splits)
  from o show ?thesis
  proof (elim disjE)
    assume t: "r = Inr True"
    with w have "settled s1" using write_ec_True_settled by blast
    moreover have "0 \<le> (if cpu_max then 0x08 else 0x04 :: int)"
      "(if cpu_max then 0x08 else 0x04 :: int) \<le> 255"
      "0 \<le> (if gpu_max then 0x20 else 0x10 :: int)"
      "(if gpu_max then 0x20 else 0x10 :: int) \<le> 255"
      by simp_all
    ultimately obtain s5 where "(and_then (read_ec EC_CPU_FAN_MODE) (\<lambda>cpu_mode.
         and_then (read_ec EC_GPU_FAN_MODE) (\<lambda>gpu_mode.
         and_then (write_ec EC_CPU_FAN_MODE (if cpu_max then 0x08 else 0x04)) (\<lambda>_.
         and_then (write_ec EC_GPU_FAN_MODE (if gpu_max then 0x20 else 0x10)) (\<lambda>_.
         ret True))))) s1 = (Inr True, s5)"
      using boost_tail_returns by blast
    with u w t show ?thesis by simp
  next
    assume "r = Inr False" with u w show ?thesis by simp
  next
    assume "r = Inl PermissionError" with u w show ?thesis by simp
  qed
qed

lemma set_custom_fans_gate:
  assumes "0 \<le> cp" "cp \<le> 100" "0 \<le> gp" "gp \<le> 100"
  shows "fst (set_custom_fans cp gp s) = fst (write_ec EC_WRITE_ENABLE 0x11 s) \<and>
   (fst (write_ec EC_WRITE_ENABLE 0x11 s) \<noteq> Inr True \<longrightarrow>
      snd (set_custom_fans cp gp s) = snd (write_ec EC_WRITE_ENABLE 0x11 s))"
proof -
  obtain r s1 where w: "write_ec EC_WRITE_ENABLE 0x11 s = (r, s1)"
    by (cases "write_ec EC_WRITE_ENABLE 0x11 s")
  have o: "r = Inr True \<or> r = Inr False \<or> r = Inl PermissionError"
    using write_ec_outcome [of "0x11" EC_WRITE_ENABLE s] w by simp
  have u: "set_custom_fans cp gp s =
     (case r of
        Inl e \<Rightarrow> (Inl e, s1)
      | Inr armed \<Rightarrow>
          if \<not> armed then (Inr False, s1)
          else (and_then (write_ec EC_GPU_FAN_MODE 0x30) (\<lambda>_.
            and_then (write_ec EC_CPU_FAN_MODE 0x0C) (\<lambda>_.
            and_then (write_ec EC_CPU_FAN_PCT cp) (\<lambda>_.
            and_then (write_ec EC_GPU_FAN_PCT gp) (\<lambda>_.
            ret True))))) s1)"
    using w assms
    by (simp add: set_custom_fans_def enable_write_def and_then_def [of "write_ec EC_WRITE_ENABLE 0x11"]
          ret_def split: sum.splits)
  from o show ?thesis
  proof (elim disjE)
    assume t: "r = Inr True"
    with w have "settled s1" using write_ec_True_settled by blast
    from custom_tail_returns [OF this assms]
    obtain s5 where "(and_then (write_ec EC_GPU_FAN_MODE 0x30) (\<lambda>_.
            and_then (write_ec EC_CPU_FAN_MODE 0x0C) (\<lambda>_.
            and_then (write_ec EC_CPU_FAN_PCT cp) (\<lambda>_.
            and_then (write_ec EC_GPU_FAN_PCT gp) (\<lambda>_.
            ret True))))) s1 = (Inr True, s5)"
      by auto
    with u w t show ?thesis by simp
  next
    assume "r = Inr False" with u w show ?thesis by simp
  next
    assume "r = Inl PermissionError" with u w show ?thesis by simp
  qed
qed

subsection \<open>Unfolding the readers\<close>

lemma get_cooler_boost_status_unfold:
  "get_cooler_boost_status s =
     (case read_ec EC_CPU_FAN_MODE s of
        (Inl e, s1) \<Rightarrow> (Inl e, s1)
      | (Inr c, s1) \<Rightarrow>
          (case read_ec EC_GPU_FAN_MODE s1 of
             (Inl e, s2) \<Rightarrow> (Inl e, s2)
           | (Inr g, s2) \<Rightarrow>
               (Inr (if c = None \<or> g = None then None else Some (c = Some 0x08 \<and> g = Some 0x20)), s2)))"
  by (simp add: get_cooler_boost_status_def and_then_def ret_def split: prod.splits sum.splits)

lemma read_fan_rpm_ec_unfold:
  "read_fan_rpm_ec lo_reg (Some hi_reg) s =
     (case read_ec lo_reg s of
        (Inl e, s1) \<Rightarrow> (Inl e, s1)
      | (Inr None, s1) \<Rightarrow> (Inr None, s1)
      | (Inr (Some lo), s1) \<Rightarrow>
          (case read_ec hi_reg s1 of
             (Inl e, s2) \<Rightarrow> (Inl e, s2)
           | (Inr hi, s2) \<Rightarrow>
               (Inr (let val = (case hi of Some h \<Rightarrow> push_bit 8 h OR lo | None \<Rightarrow> lo)
                     in if val = 0 \<or> val > 65000 then None else Some val), s2)))"
  by (simp add: read_fan_rpm_ec_def and_then_def ret_def Let_def
           split: prod.splits sum.splits option.splits)

lemma read_fan_rpm_ec_direct:
  assumes "read_fan_rpm_ec lo_reg (Some hi_reg) s = (Inr r, s')"
  shows "r =
           (case fst (read_ec lo_reg s) of
              Inr (Some lo) \<Rightarrow>
                (let val = (case fst (read_ec hi_reg (snd (read_ec lo_reg s))) of
                              Inr (Some hi) \<Rightarrow> push_bit 8 hi OR lo
                            | _ \<Rightarrow> lo)
                 in if val = 0 \<or> val > 65000 then None else Some val)
            | _ \<Rightarrow> None)"
  using assms
  by (auto simp: read_fan_rpm_ec_unfold Let_def split: prod.splits sum.splits option.splits)

lemma read_fan_rpm_ec_range:
  assumes "read_fan_rpm_ec lo_reg (Some hi_reg) s = (Inr (Some v), s')"
  shows "0 < v \<and> v \<le> 65000"
proof -
  obtain r1 s1 where r1: "read_ec lo_reg s = (r1, s1)" by (cases "read_ec lo_reg s")
  with assms obtain lo where lo: "r1 = Inr (Some lo)"
    by (cases r1) (auto simp: read_fan_rpm_ec_unfold split: option.splits)
  have l0: "0 \<le> lo" using read_ec_range [of lo_reg s lo] r1 lo by simp
  obtain r2 s2 where r2: "read_ec hi_reg s1 = (r2, s2)" by (cases "read_ec hi_reg s1")
  with assms r1 lo obtain hi where hi: "r2 = Inr hi"
    by (cases r2) (auto simp: read_fan_rpm_ec_unfold)
  define val where "val = (case hi of Some h \<Rightarrow> push_bit 8 h OR lo | None \<Rightarrow> lo)"
  have nn: "0 \<le> val"
  proof (cases hi)
    case None
    then show ?thesis using l0 by (simp add: val_def)
  next
    case (Some h)
    then have "0 \<le> h" using read_ec_range [of hi_reg s1 h] r2 hi by simp
    then show ?thesis using l0 Some by (simp add: val_def)
  qed
  have "v = val \<and> val \<noteq> 0 \<and> val \<le> 65000"
    using assms r1 lo r2 hi
    by (auto simp: read_fan_rpm_ec_unfold val_def Let_def split: if_splits)
  with nn show ?thesis by linarith
qed

lemma get_fan_info_fields:
  assumes "read_ec EC_CPU_FAN_MODE s = (Inr cm, s1)"
    and "read_ec EC_GPU_FAN_MODE s1 = (Inr gm, s2)"
    and "read_ec EC_CPU_FAN_PCT s2 = (Inr cp, s3)"
    and "read_ec EC_GPU_FAN_PCT s3 = (Inr gp, s4)"
    and "read_fan_rpm_ec EC_CPU_FAN_RPM_LO (Some EC_CPU_FAN_RPM_HI) s4 = (Inr cr, s5)"
    and "read_fan_rpm_ec EC_GPU_FAN_RPM_LO (Some EC_GPU_FAN_RPM_HI) s5 = (Inr gr, s6)"
    and "get_cooler_boost_status s6 = (Inr b, s7)"
  shows "get_fan_info s =
           (Inr \<lparr>mode = mode_label cm gm, cpu_percent = cp, gpu_percent = gp,
                 cpu_rpm = rpm_or_estimate cr cp, gpu_rpm = rpm_or_estimate gr gp,
                 cooler_boost = b, cpu_cooler_boost = boost_flag 0x08 cm,
                 gpu_cooler_boost = boost_flag 0x20 gm\<rparr>, s7)"
  using assms by (simp add: get_fan_info_def and_then_def ret_def)

lemma get_fan_info_InrD:
  assumes "get_fan_info s = (Inr info, s7)"
  shows "\<exists>cm s1 gm s2 cp s3 gp s4 cr s5 gr s6 b.
           read_ec EC_CPU_FAN_MODE s = (Inr cm, s1) \<and>
           read_ec EC_GPU_FAN_MODE s1 = (Inr gm, s2) \<and>
           read_ec EC_CPU_FAN_PCT s2 = (Inr cp, s3) \<and>
           read_ec EC_GPU_FAN_PCT s3 = (Inr gp, s4) \<and>
           read_fan_rpm_ec EC_CPU_FAN_RPM_LO (Some EC_CPU_FAN_RPM_HI) s4 = (Inr cr, s5) \<and>
           read_fan_rpm_ec EC_GPU_FAN_RPM_LO (Some EC_GPU_FAN_RPM_HI) s5 = (Inr gr, s6) \<and>
           get_cooler_boost_status s6 = (Inr b, s7) \<and>
           info = \<lparr>mode = mode_label cm gm, cpu_percent = cp, gpu_percent = gp,
                    cpu_rpm = rpm_or_estimate cr cp, gpu_rpm = rpm_or_estimate gr gp,
                    cooler_boost = b, cpu_cooler_boost = boost_flag 0x08 cm,
                    gpu_cooler_boost = boost_flag 0x20 gm\<rparr>"
  using assms
  by (simp add: get_fan_info_def and_then_def ret_def split: prod.splits sum.splits)

lemma mode_label_cases:
  "(mode_label c g = ''max'' \<longleftrightarrow> c = Some 0x08 \<and> g = Some 0x20) \<and>
   (mode_label c g = ''auto'' \<longleftrightarrow> c = Some 0x04 \<and> g = Some 0x10) \<and>
   (mode_label c g = ''custom'' \<longleftrightarrow> c = Some 0x0C \<and> g = Some 0x30) \<and>
   (mode_label c g = ''unknown'' \<longleftrightarrow>
      \<not> (c = Some 0x08 \<and> g = Some 0x20) \<and> \<not> (c = Some 0x04 \<and> g = Some 0x10) \<and>
      \<not> (c = Some 0x0C \<and> g = Some 0x30))"
  by (simp add: mode_label_def)

lemma get_fan_info_denied:
  "node_of (first_probe s) (env s) = Denied \<Longrightarrow> fst (get_fan_info s) = Inl PermissionError"
  using read_ec_denied [of s EC_CPU_FAN_MODE]
  by (cases "read_ec EC_CPU_FAN_MODE s") (simp add: get_fan_info_def and_then_def)

lemma rpm_or_estimate_bounds:
  assumes "\<And>w. r = Some w \<Longrightarrow> 0 < w \<and> w \<le> 65000"
    and "\<And>q. p = Some q \<Longrightarrow> 0 \<le> q \<and> q \<le> 255"
  shows "(\<forall>v. rpm_or_estimate r p = Some v \<longrightarrow> 0 \<le> v \<and> v \<le> 65000) \<and>
         (rpm_or_estimate r p = Some 0 \<longleftrightarrow> r = None \<and> p = Some 0)"
proof (cases r)
  case None
  show ?thesis
  proof (cases p)
    case None
    with \<open>r = None\<close> show ?thesis by (simp add: rpm_or_estimate_def)
  next
    case (Some q)
    with assms(2) have "0 \<le> q \<and> q \<le> 255" by simp
    with Some \<open>r = None\<close> show ?thesis by (simp add: rpm_or_estimate_def)
  qed
next
  case (Some w)
  with assms(1) have "0 < w \<and> w \<le> 65000" by simp
  with Some show ?thesis by (simp add: rpm_or_estimate_def)
qed

subsection \<open>Reads and writes on a quiet store\<close>

lemma write_ec_calm:
  assumes "calm s xs" "0 \<le> v" "v \<le> 255"
  shows "fst (write_ec off v s) = Inr True \<and>
         calm (snd (write_ec off v s)) (poke off (word_of_int v) xs)"
proof (cases "ec_path (self s)")
  case None
  with assms show ?thesis
    by (cases "sys_io (env s)"; cases "dev_ec (env s)")
       (auto simp: calm_def store_of_def write_ec_def and_then_def ret_def resolve_def
          cached_exists_def select_iface_def write_ec_sys_def write_acpi_ec_def
          detect_ec_interface_def path_exists_def try_write_def next_fault_def emit_def
          node_of_def set_node_def Let_def)
next
  case (Some q)
  with assms show ?thesis
    by (cases q; cases "use_ec_sys (self s)"; cases "node_of q (env s)")
       (auto simp: calm_def store_of_def write_ec_def and_then_def ret_def resolve_def
          cached_exists_def write_ec_sys_def write_acpi_ec_def
          path_exists_def try_write_def next_fault_def emit_def
          node_of_def set_node_def Let_def)
qed

lemma read_ec_calm:
  assumes "calm s xs"
  shows "fst (read_ec off s) = Inr (peek off xs) \<and> calm (snd (read_ec off s)) xs"
proof (cases "ec_path (self s)")
  case None
  with assms show ?thesis
    by (cases "sys_io (env s)"; cases "dev_ec (env s)")
       (auto simp: calm_def store_of_def read_ec_def and_then_def ret_def resolve_def
          cached_exists_def select_iface_def
          detect_ec_interface_def path_exists_def try_read_def next_fault_def emit_def
          node_of_def Let_def)
next
  case (Some q)
  with assms show ?thesis
    by (cases q; cases "node_of q (env s)")
       (auto simp: calm_def store_of_def read_ec_def and_then_def ret_def resolve_def
          cached_exists_def
          path_exists_def try_read_def next_fault_def emit_def
          node_of_def Let_def)
qed

lemma write_ec_calm_ex:
  assumes "calm s xs" "0 \<le> v" "v \<le> 255"
  shows "\<exists>s1. write_ec off v s = (Inr True, s1) \<and> calm s1 (poke off (word_of_int v) xs)"
  using write_ec_calm [OF assms, of off] by (cases "write_ec off v s") simp

lemma read_ec_calm_ex:
  assumes "calm s xs"
  shows "\<exists>s1. read_ec off s = (Inr (peek off xs), s1) \<and> calm s1 xs"
  using read_ec_calm [OF assms, of off] by (cases "read_ec off s") simp

lemma read_fan_rpm_ec_calm:
  assumes "calm s xs"
  shows "\<exists>r s'. read_fan_rpm_ec lo_reg (Some hi_reg) s = (Inr r, s') \<and> calm s' xs"
proof -
  obtain s1 where a: "read_ec lo_reg s = (Inr (peek lo_reg xs), s1)" "calm s1 xs"
    using read_ec_calm_ex [OF assms] by blast
  obtain s2 where b: "read_ec hi_reg s1 = (Inr (peek hi_reg xs), s2)" "calm s2 xs"
    using read_ec_calm_ex [OF a(2)] by blast
  show ?thesis
    using a b by (cases "peek lo_reg xs") (simp_all add: read_fan_rpm_ec_unfold)
qed

lemma get_cooler_boost_status_calm:
  assumes "calm s xs"
  shows "\<exists>r s'. get_cooler_boost_status s = (Inr r, s') \<and> calm s' xs"
proof -
  obtain s1 where a: "read_ec EC_CPU_FAN_MODE s = (Inr (peek EC_CPU_FAN_MODE xs), s1)" "calm s1 xs"
    using read_ec_calm_ex [OF assms] by blast
  obtain s2 where b: "read_ec EC_GPU_FAN_MODE s1 = (Inr (peek EC_GPU_FAN_MODE xs), s2)" "calm s2 xs"
    using read_ec_calm_ex [OF a(2)] by blast
  show ?thesis
    using a b by (simp add: get_cooler_boost_status_unfold)
qed

lemma get_fan_info_calm:
  assumes "calm s ys"
  shows "\<exists>info. fst (get_fan_info s) = Inr info \<and>
           mode info = mode_label (peek EC_CPU_FAN_MODE ys) (peek EC_GPU_FAN_MODE ys) \<and>
           cpu_percent info = peek EC_CPU_FAN_PCT ys \<and>
           gpu_percent info = peek EC_GPU_FAN_PCT ys"
proof -
  obtain s1 where c1: "read_ec EC_CPU_FAN_MODE s = (Inr (peek EC_CPU_FAN_MODE ys), s1)" "calm s1 ys"
    using read_ec_calm_ex [OF assms] by blast
  obtain s2 where c2: "read_ec EC_GPU_FAN_MODE s1 = (Inr (peek EC_GPU_FAN_MODE ys), s2)" "calm s2 ys"
    using read_ec_calm_ex [OF c1(2)] by blast
  obtain s3 where c3: "read_ec EC_CPU_FAN_PCT s2 = (Inr (peek EC_CPU_FAN_PCT ys), s3)" "calm s3 ys"
    using read_ec_calm_ex [OF c2(2)] by blast
  obtain s4 where c4: "read_ec EC_GPU_FAN_PCT s3 = (Inr (peek EC_GPU_FAN_PCT ys), s4)" "calm s4 ys"
    using read_ec_calm_ex [OF c3(2)] by blast
  obtain cr s5 where c5:
    "read_fan_rpm_ec EC_CPU_FAN_RPM_LO (Some EC_CPU_FAN_RPM_HI) s4 = (Inr cr, s5)" "calm s5 ys"
    using read_fan_rpm_ec_calm [OF c4(2)] by blast
  obtain gr s6 where c6:
    "read_fan_rpm_ec EC_GPU_FAN_RPM_LO (Some EC_GPU_FAN_RPM_HI) s5 = (Inr gr, s6)" "calm s6 ys"
    using read_fan_rpm_ec_calm [OF c5(2)] by blast
  obtain b s7 where c7: "get_cooler_boost_status s6 = (Inr b, s7)"
    using get_cooler_boost_status_calm [OF c6(2)] by blast
  show ?thesis
    by (simp add: get_fan_info_fields [OF c1(1) c2(1) c3(1) c4(1) c5(1) c6(1) c7])
qed

lemma poke_chain:
  assumes "0 \<le> p" "p \<le> 100"
  shows "peek EC_CPU_FAN_MODE
           (poke EC_GPU_FAN_PCT (word_of_int p) (poke EC_CPU_FAN_PCT (word_of_int p)
             (poke EC_CPU_FAN_MODE (word_of_int 0x0C) (poke EC_GPU_FAN_MODE (word_of_int 0x30) ys))))
         = Some 0x0C"
    and "peek EC_GPU_FAN_MODE
           (poke EC_GPU_FAN_PCT (word_of_int p) (poke EC_CPU_FAN_PCT (word_of_int p)
             (poke EC_CPU_FAN_MODE (word_of_int 0x0C) (poke EC_GPU_FAN_MODE (word_of_int 0x30) ys))))
         = Some 0x30"
    and "peek EC_CPU_FAN_PCT
           (poke EC_GPU_FAN_PCT (word_of_int p) (poke EC_CPU_FAN_PCT (word_of_int p)
             (poke EC_CPU_FAN_MODE (word_of_int 0x0C) (poke EC_GPU_FAN_MODE (word_of_int 0x30) ys))))
         = Some p"
    and "peek EC_GPU_FAN_PCT
           (poke EC_GPU_FAN_PCT (word_of_int p) (poke EC_CPU_FAN_PCT (word_of_int p)
             (poke EC_CPU_FAN_MODE (word_of_int 0x0C) (poke EC_GPU_FAN_MODE (word_of_int 0x30) ys))))
         = Some p"
proof -
  have up: "uint (word_of_int p :: byte) = p" using assms by (simp add: uint_percent)
  show "peek EC_CPU_FAN_MODE
           (poke EC_GPU_FAN_PCT (word_of_int p) (poke EC_CPU_FAN_PCT (word_of_int p)
             (poke EC_CPU_FAN_MODE (word_of_int 0x0C) (poke EC_GPU_FAN_MODE (word_of_int 0x30) ys))))
         = Some 0x0C"
    by (rule peek_poke_other, simp, rule peek_poke_other, simp) (simp add: peek_poke_same)
  show "peek EC_GPU_FAN_MODE
           (poke EC_GPU_FAN_PCT (word_of_int p) (poke EC_CPU_FAN_PCT (word_of_int p)
             (poke EC_CPU_FAN_MODE (word_of_int 0x0C) (poke EC_GPU_FAN_MODE (word_of_int 0x30) ys))))
         = Some 0x30"
    by (rule peek_poke_other, simp, rule peek_poke_other, simp, rule peek_poke_other, simp)
       (simp add: peek_poke_same)
  show "peek EC_CPU_FAN_PCT
           (poke EC_GPU_FAN_PCT (word_of_int p) (poke EC_CPU_FAN_PCT (word_of_int p)
             (poke EC_CPU_FAN_MODE (word_of_int 0x0C) (poke EC_GPU_FAN_MODE (word_of_int 0x30) ys))))
         = Some p"
    by (rule peek_poke_other, simp) (simp add: peek_poke_same up)
  show "peek EC_GPU_FAN_PCT
           (poke EC_GPU_FAN_PCT (word_of_int p) (poke EC_CPU_FAN_PCT (word_of_int p)
             (poke EC_CPU_FAN_MODE (word_of_int 0x0C) (poke EC_GPU_FAN_MODE (word_of_int 0x30) ys))))
         = Some p"
    by (simp add: peek_poke_same up)
qed

lemma set_custom_fans_calm:
  assumes "calm s xs" "0 \<le> p" "p \<le> 100"
  shows "\<exists>s5. set_custom_fans p p s = (Inr True, s5) \<and>
         calm s5
           (poke EC_GPU_FAN_PCT (word_of_int p) (poke EC_CPU_FAN_PCT (word_of_int p)
             (poke EC_CPU_FAN_MODE (word_of_int 0x0C) (poke EC_GPU_FAN_MODE (word_of_int 0x30)
               (poke EC_WRITE_ENABLE (word_of_int 0x11) xs)))))"
proof -
  have p255: "p \<le> 255" using assms by simp
  obtain s1 where w1: "write_ec EC_WRITE_ENABLE 0x11 s = (Inr True, s1)"
      "calm s1 (poke EC_WRITE_ENABLE (word_of_int 0x11) xs)"
    using write_ec_calm_ex [OF assms(1), of "0x11" EC_WRITE_ENABLE] by auto
  obtain s2 where w2: "write_ec EC_GPU_FAN_MODE 0x30 s1 = (Inr True, s2)"
      "calm s2 (poke EC_GPU_FAN_MODE (word_of_int 0x30) (poke EC_WRITE_ENABLE (word_of_int 0x11) xs))"
    using write_ec_calm_ex [OF w1(2), of "0x30" EC_GPU_FAN_MODE] by auto
  obtain s3 where w3: "write_ec EC_CPU_FAN_MODE 0x0C s2 = (Inr True, s3)"
      "calm s3 (poke EC_CPU_FAN_MODE (word_of_int 0x0C)
              (poke EC_GPU_FAN_MODE (word_of_int 0x30) (poke EC_WRITE_ENABLE (word_of_int 0x11) xs)))"
    using write_ec_calm_ex [OF w2(2), of "0x0C" EC_CPU_FAN_MODE] by auto
  obtain s4 where w4: "write_ec EC_CPU_FAN_PCT p s3 = (Inr True, s4)"
      "calm s4 (poke EC_CPU_FAN_PCT (word_of_int p) (poke EC_CPU_FAN_MODE (word_of_int 0x0C)
              (poke EC_GPU_FAN_MODE (word_of_int 0x30) (poke EC_WRITE_ENABLE (word_of_int 0x11) xs))))"
    using write_ec_calm_ex [OF w3(2) assms(2) p255, of EC_CPU_FAN_PCT] by blast
  obtain s5 where w5: "write_ec EC_GPU_FAN_PCT p s4 = (Inr True, s5)"
      "calm s5 (poke EC_GPU_FAN_PCT (word_of_int p) (poke EC_CPU_FAN_PCT (word_of_int p)
              (poke EC_CPU_FAN_MODE (word_of_int 0x0C)
              (poke EC_GPU_FAN_MODE (word_of_int 0x30) (poke EC_WRITE_ENABLE (word_of_int 0x11) xs)))))"
    using write_ec_calm_ex [OF w4(2) assms(2) p255, of EC_GPU_FAN_PCT] by blast
  have r: "set_custom_fans p p s = (Inr True, s5)"
    using assms(2,3) w1(1) w2(1) w3(1)
    by (simp add: set_custom_fans_def enable_write_def and_then_def w4(1) w5(1) ret_def)
  show ?thesis using r w5(2) by blast
qed

section \<open>The claims\<close>

subsection \<open>The setters report the write gate\<close>

text \<open>
  Claim C1. The outcome of \<^verbatim>\<open>set_cooler_boost_individual\<close>, and of
  \<^verbatim>\<open>set_custom_fans\<close> on percents in 0..100, is the outcome of the enable write
  (0x11 to offset 0x03), whatever the later reads and writes do; and unless that write
  returned \<^verbatim>\<open>True\<close>, the state after the method is the state right after that write:
  nothing else was probed, opened or written. So far the code does what the claim says.
  But the enable write has three outcomes, not two: where the first probe of the access
  is denied, it raises \<^verbatim>\<open>PermissionError\<close>, and so does the setter, where the claim
  has it return \<^verbatim>\<open>False\<close>.
\<close>

theorem setters_report_write_gate:
  "fst (set_cooler_boost_individual cpu_max gpu_max s) = fst (write_ec EC_WRITE_ENABLE 0x11 s) \<and>
   (fst (write_ec EC_WRITE_ENABLE 0x11 s) \<noteq> Inr True \<longrightarrow>
      snd (set_cooler_boost_individual cpu_max gpu_max s) = snd (write_ec EC_WRITE_ENABLE 0x11 s)) \<and>
   (0 \<le> cpu_pct \<and> cpu_pct \<le> 100 \<and> 0 \<le> gpu_pct \<and> gpu_pct \<le> 100 \<longrightarrow>
      fst (set_custom_fans cpu_pct gpu_pct s) = fst (write_ec EC_WRITE_ENABLE 0x11 s) \<and>
      (fst (write_ec EC_WRITE_ENABLE 0x11 s) \<noteq> Inr True \<longrightarrow>
         snd (set_custom_fans cpu_pct gpu_pct s) = snd (write_ec EC_WRITE_ENABLE 0x11 s))) \<and>
   (fst (write_ec EC_WRITE_ENABLE 0x11 s) = Inr True \<or>
    fst (write_ec EC_WRITE_ENABLE 0x11 s) = Inr False \<or>
    fst (write_ec EC_WRITE_ENABLE 0x11 s) = Inl PermissionError) \<and>
   (node_of (first_probe s) (env s) = Denied \<longrightarrow>
      fst (write_ec EC_WRITE_ENABLE 0x11 s) = Inl PermissionError \<and>
      fst (set_cooler_boost_individual cpu_max gpu_max s) = Inl PermissionError)"
proof -
  note a = set_cooler_boost_individual_gate [of cpu_max gpu_max s]
  have b: "0 \<le> cpu_pct \<and> cpu_pct \<le> 100 \<and> 0 \<le> gpu_pct \<and> gpu_pct \<le> 100 \<longrightarrow>
      fst (set_custom_fans cpu_pct gpu_pct s) = fst (write_ec EC_WRITE_ENABLE 0x11 s) \<and>
      (fst (write_ec EC_WRITE_ENABLE 0x11 s) \<noteq> Inr True \<longrightarrow>
         snd (set_custom_fans cpu_pct gpu_pct s) = snd (write_ec EC_WRITE_ENABLE 0x11 s))"
    using set_custom_fans_gate [of cpu_pct gpu_pct s] by blast
  have c: "fst (write_ec EC_WRITE_ENABLE 0x11 s) = Inr True \<or>
    fst (write_ec EC_WRITE_ENABLE 0x11 s) = Inr False \<or>
    fst (write_ec EC_WRITE_ENABLE 0x11 s) = Inl PermissionError"
    using write_ec_outcome [of "0x11" EC_WRITE_ENABLE s] by simp
  have d: "node_of (first_probe s) (env s) = Denied \<longrightarrow>
      fst (write_ec EC_WRITE_ENABLE 0x11 s) = Inl PermissionError \<and>
      fst (set_cooler_boost_individual cpu_max gpu_max s) = Inl PermissionError"
    using write_ec_denied [of s EC_WRITE_ENABLE "0x11"] a by simp
  from a b c d show ?thesis by blast
qed

text \<open>
  The gate opens and every later access fails (the methods still return \<^verbatim>\<open>True\<close>,
  and only the enable byte reached the store); the gate fails on an I/O error (the methods
  return \<^verbatim>\<open>False\<close> and the trace ends with the attempt on offset 3); an unprivileged
  process whose probe of the debug filesystem is denied (the methods raise after that one
  probe).
\<close>

theorem setters_report_write_gate_witness:
  "fst (write_ec EC_WRITE_ENABLE 0x11
          (sim None (Present zeros) Absent [False, True, True, True, True])) = Inr True \<and>
   fst (set_cooler_boost_individual True True
          (sim None (Present zeros) Absent [False, True, True, True, True])) = Inr True \<and>
   fst (set_custom_fans 30 70
          (sim None (Present zeros) Absent [False, True, True, True, True])) = Inr True \<and>
   sys_io (env (snd (set_custom_fans 30 70
          (sim None (Present zeros) Absent [False, True, True, True, True])))) =
     Present ((replicate 64 0)[3 := 0x11]) \<and>
   fst (write_ec EC_WRITE_ENABLE 0x11 (sim None (Present zeros) Absent [True])) = Inr False \<and>
   set_cooler_boost_individual True True (sim None (Present zeros) Absent [True]) =
     (Inr False, snd (write_ec EC_WRITE_ENABLE 0x11 (sim None (Present zeros) Absent [True]))) \<and>
   set_custom_fans 30 70 (sim None (Present zeros) Absent [True]) =
     (Inr False, snd (write_ec EC_WRITE_ENABLE 0x11 (sim None (Present zeros) Absent [True]))) \<and>
   events (env (snd (set_custom_fans 30 70 (sim None (Present zeros) Absent [True])))) =
     [Probe EC_SYS_PATH, Probe EC_SYS_PATH, Probe EC_SYS_PATH, WriteAccess EC_SYS_PATH 3 0x11] \<and>
   node_of (first_probe (as_user 1000 (sim None Denied Absent [])))
     (env (as_user 1000 (sim None Denied Absent []))) = Denied \<and>
   fst (set_cooler_boost_individual True True (as_user 1000 (sim None Denied Absent []))) =
     Inl PermissionError \<and>
   fst (set_custom_fans 30 70 (as_user 1000 (sim None Denied Absent []))) = Inl PermissionError \<and>
   events (env (snd (set_custom_fans 30 70 (as_user 1000 (sim None Denied Absent []))))) =
     [Probe EC_SYS_PATH]"
  using setters_report_write_gate
          [of True True "sim None (Present zeros) Absent [False, True, True, True, True]" 30 70]
        setters_report_write_gate [of True True "sim None (Present zeros) Absent [True]" 30 70]
        setters_report_write_gate [of True True "as_user 1000 (sim None Denied Absent [])" 30 70]
  by (simp add: run_defs)

subsection \<open>Percents out of range\<close>

text \<open>
  Claim C2. With either percent outside 0..100, \<^verbatim>\<open>set_custom_fans\<close> returns
  \<^verbatim>\<open>False\<close> and leaves the whole state as it was: the store, the failure schedule
  and the trace, so no path was probed and no register was read or written.
\<close>

theorem set_custom_fans_rejects:
  "\<not> (0 \<le> cpu_pct \<and> cpu_pct \<le> 100) \<or> \<not> (0 \<le> gpu_pct \<and> gpu_pct \<le> 100) \<Longrightarrow>
   set_custom_fans cpu_pct gpu_pct s = (Inr False, s)"
  by (simp add: set_custom_fans_def ret_def)

theorem set_custom_fans_rejects_witness:
  "set_custom_fans 101 50 (sim None (Present zeros) Absent []) =
     (Inr False, sim None (Present zeros) Absent []) \<and>
   set_custom_fans 50 (- 1) (sim None (Present zeros) Absent []) =
     (Inr False, sim None (Present zeros) Absent []) \<and>
   events (env (snd (set_custom_fans 101 50 (sim None (Present zeros) Absent [])))) = [] \<and>
   sys_io (env (snd (set_custom_fans 101 50 (sim None (Present zeros) Absent [])))) =
     Present zeros \<and>
   set_custom_fans 101 50 (as_user 1000 (sim None Denied Absent [])) =
     (Inr False, as_user 1000 (sim None Denied Absent [])) \<and>
   fst (set_custom_fans 100 0 (sim None (Present zeros) Absent [])) = Inr True"
  using set_custom_fans_rejects [of 101 50 "sim None (Present zeros) Absent []"]
    set_custom_fans_rejects [of 50 "- 1" "sim None (Present zeros) Absent []"]
    set_custom_fans_rejects [of 101 50 "as_user 1000 (sim None Denied Absent [])"]
  by (simp add: run_defs)

subsection \<open>The boost status\<close>

text \<open>
  Claim C3. \<^verbatim>\<open>get_cooler_boost_status\<close> reads the CPU mode register (0x22) and then
  the GPU mode register (0x21). Where both reads return, it returns \<^verbatim>\<open>None\<close> exactly
  when one of them gave no byte, \<^verbatim>\<open>True\<close> exactly when they gave 0x08 and 0x20, and
  \<^verbatim>\<open>False\<close> exactly for any other pair of bytes. But where the first probe of the
  access is denied, the read does not return: the method raises \<^verbatim>\<open>PermissionError\<close>,
  where the claim has it return \<^verbatim>\<open>None\<close>.
\<close>

theorem get_cooler_boost_status_spec:
  "(node_of (first_probe s) (env s) = Denied \<longrightarrow>
      fst (get_cooler_boost_status s) = Inl PermissionError) \<and>
   (fst (get_cooler_boost_status s) = Inr None \<longleftrightarrow>
      (\<exists>c g. fst (read_ec EC_CPU_FAN_MODE s) = Inr c \<and>
             fst (read_ec EC_GPU_FAN_MODE (snd (read_ec EC_CPU_FAN_MODE s))) = Inr g \<and>
             (c = None \<or> g = None))) \<and>
   (fst (get_cooler_boost_status s) = Inr (Some True) \<longleftrightarrow>
      fst (read_ec EC_CPU_FAN_MODE s) = Inr (Some 0x08) \<and>
      fst (read_ec EC_GPU_FAN_MODE (snd (read_ec EC_CPU_FAN_MODE s))) = Inr (Some 0x20)) \<and>
   (fst (get_cooler_boost_status s) = Inr (Some False) \<longleftrightarrow>
      (\<exists>c g. fst (read_ec EC_CPU_FAN_MODE s) = Inr (Some c) \<and>
             fst (read_ec EC_GPU_FAN_MODE (snd (read_ec EC_CPU_FAN_MODE s))) = Inr (Some g) \<and>
             \<not> (c = 0x08 \<and> g = 0x20)))"
proof -
  have d: "node_of (first_probe s) (env s) = Denied \<longrightarrow>
      fst (get_cooler_boost_status s) = Inl PermissionError"
    using read_ec_denied [of s EC_CPU_FAN_MODE]
    by (cases "read_ec EC_CPU_FAN_MODE s") (auto simp: get_cooler_boost_status_unfold)
  obtain r1 s1 where r1: "read_ec EC_CPU_FAN_MODE s = (r1, s1)" by (cases "read_ec EC_CPU_FAN_MODE s")
  obtain r2 s2 where r2: "read_ec EC_GPU_FAN_MODE s1 = (r2, s2)" by (cases "read_ec EC_GPU_FAN_MODE s1")
  have rest: "(fst (get_cooler_boost_status s) = Inr None \<longleftrightarrow>
      (\<exists>c g. r1 = Inr c \<and> r2 = Inr g \<and> (c = None \<or> g = None))) \<and>
   (fst (get_cooler_boost_status s) = Inr (Some True) \<longleftrightarrow>
      r1 = Inr (Some 0x08) \<and> r2 = Inr (Some 0x20)) \<and>
   (fst (get_cooler_boost_status s) = Inr (Some False) \<longleftrightarrow>
      (\<exists>c g. r1 = Inr (Some c) \<and> r2 = Inr (Some g) \<and> \<not> (c = 0x08 \<and> g = 0x20)))"
    using r1 r2
    by (cases r1; cases r2) (auto simp: get_cooler_boost_status_unfold)
  from d rest r1 r2 show ?thesis by simp
qed

theorem get_cooler_boost_status_spec_witness:
  "fst (get_cooler_boost_status
          (sim (Some EC_SYS_PATH) (Present (zeros[0x22 := 0x08, 0x21 := 0x20])) Absent []))
     = Inr (Some True) \<and>
   fst (get_cooler_boost_status
          (sim (Some EC_SYS_PATH) (Present (zeros[0x22 := 0x08, 0x21 := 0x10])) Absent []))
     = Inr (Some False) \<and>
   fst (get_cooler_boost_status
          (sim (Some EC_SYS_PATH) (Present (zeros[0x22 := 0x08, 0x21 := 0x20])) Absent
             [False, True]))
     = Inr None \<and>
   node_of (first_probe (as_user 1000 (sim None Denied Absent [])))
     (env (as_user 1000 (sim None Denied Absent []))) = Denied \<and>
   fst (get_cooler_boost_status (as_user 1000 (sim None Denied Absent []))) = Inl PermissionError"
  using get_cooler_boost_status_spec
          [of "sim (Some EC_SYS_PATH) (Present (zeros[0x22 := 0x08, 0x21 := 0x20])) Absent []"]
        get_cooler_boost_status_spec
          [of "sim (Some EC_SYS_PATH) (Present (zeros[0x22 := 0x08, 0x21 := 0x10])) Absent []"]
        get_cooler_boost_status_spec
          [of "sim (Some EC_SYS_PATH) (Present (zeros[0x22 := 0x08, 0x21 := 0x20])) Absent
             [False, True]"]
        get_cooler_boost_status_spec [of "as_user 1000 (sim None Denied Absent [])"]
  by (simp add: run_defs)

subsection \<open>The aggregate mode\<close>

text \<open>
  Claim C4. Where \<^verbatim>\<open>get_fan_info\<close> returns a snapshot, its \<^verbatim>\<open>mode\<close> is "max"
  exactly when the two mode reads gave 0x08 and 0x20, "auto" exactly for 0x04 and 0x10,
  "custom" exactly for 0x0c and 0x30, and "unknown" in every other case: a read that gave
  no byte, or codes of different families. But where the first probe of the access is
  denied, the method raises \<^verbatim>\<open>PermissionError\<close>, where the claim has the mode
  "unknown".
\<close>

theorem get_fan_info_mode:
  "(node_of (first_probe s) (env s) = Denied \<longrightarrow> fst (get_fan_info s) = Inl PermissionError) \<and>
   (\<forall>info. fst (get_fan_info s) = Inr info \<longrightarrow>
     (mode info = ''max'' \<longleftrightarrow>
        fst (read_ec EC_CPU_FAN_MODE s) = Inr (Some 0x08) \<and>
        fst (read_ec EC_GPU_FAN_MODE (snd (read_ec EC_CPU_FAN_MODE s))) = Inr (Some 0x20)) \<and>
     (mode info = ''auto'' \<longleftrightarrow>
        fst (read_ec EC_CPU_FAN_MODE s) = Inr (Some 0x04) \<and>
        fst (read_ec EC_GPU_FAN_MODE (snd (read_ec EC_CPU_FAN_MODE s))) = Inr (Some 0x10)) \<and>
     (mode info = ''custom'' \<longleftrightarrow>
        fst (read_ec EC_CPU_FAN_MODE s) = Inr (Some 0x0C) \<and>
        fst (read_ec EC_GPU_FAN_MODE (snd (read_ec EC_CPU_FAN_MODE s))) = Inr (Some 0x30)) \<and>
     (mode info = ''unknown'' \<longleftrightarrow>
        \<not> (fst (read_ec EC_CPU_FAN_MODE s) = Inr (Some 0x08) \<and>
           fst (read_ec EC_GPU_FAN_MODE (snd (read_ec EC_CPU_FAN_MODE s))) = Inr (Some 0x20)) \<and>
        \<not> (fst (read_ec EC_CPU_FAN_MODE s) = Inr (Some 0x04) \<and>
           fst (read_ec EC_GPU_FAN_MODE (snd (read_ec EC_CPU_FAN_MODE s))) = Inr (Some 0x10)) \<and>
        \<not> (fst (read_ec EC_CPU_FAN_MODE s) = Inr (Some 0x0C) \<and>
           fst (read_ec EC_GPU_FAN_MODE (snd (read_ec EC_CPU_FAN_MODE s))) = Inr (Some 0x30))))"
proof (intro conjI impI allI)
  assume "node_of (first_probe s) (env s) = Denied"
  then show "fst (get_fan_info s) = Inl PermissionError" by (rule get_fan_info_denied)
next
  fix info
  assume a: "fst (get_fan_info s) = Inr info"
  then have "get_fan_info s = (Inr info, snd (get_fan_info s))" by (cases "get_fan_info s") simp
  from get_fan_info_InrD [OF this] obtain cm s1 gm s2 where
    r: "read_ec EC_CPU_FAN_MODE s = (Inr cm, s1)" "read_ec EC_GPU_FAN_MODE s1 = (Inr gm, s2)"
    and m: "mode info = mode_label cm gm"
    by auto
  note c = mode_label_cases [of cm gm]
  show "mode info = ''max'' \<longleftrightarrow>
        fst (read_ec EC_CPU_FAN_MODE s) = Inr (Some 0x08) \<and>
        fst (read_ec EC_GPU_FAN_MODE (snd (read_ec EC_CPU_FAN_MODE s))) = Inr (Some 0x20)"
    using r c by (simp add: m)
  show "mode info = ''auto'' \<longleftrightarrow>
        fst (read_ec EC_CPU_FAN_MODE s) = Inr (Some 0x04) \<and>
        fst (read_ec EC_GPU_FAN_MODE (snd (read_ec EC_CPU_FAN_MODE s))) = Inr (Some 0x10)"
    using r c by (simp add: m)
  show "mode info = ''custom'' \<longleftrightarrow>
        fst (read_ec EC_CPU_FAN_MODE s) = Inr (Some 0x0C) \<and>
        fst (read_ec EC_GPU_FAN_MODE (snd (read_ec EC_CPU_FAN_MODE s))) = Inr (Some 0x30)"
    using r c by (simp add: m)
  show "mode info = ''unknown'' \<longleftrightarrow>
        \<not> (fst (read_ec EC_CPU_FAN_MODE s) = Inr (Some 0x08) \<and>
           fst (read_ec EC_GPU_FAN_MODE (snd (read_ec EC_CPU_FAN_MODE s))) = Inr (Some 0x20)) \<and>
        \<not> (fst (read_ec EC_CPU_FAN_MODE s) = Inr (Some 0x04) \<and>
           fst (read_ec EC_GPU_FAN_MODE (snd (read_ec EC_CPU_FAN_MODE s))) = Inr (Some 0x10)) \<and>
        \<not> (fst (read_ec EC_CPU_FAN_MODE s) = Inr (Some 0x0C) \<and>
           fst (read_ec EC_GPU_FAN_MODE (snd (read_ec EC_CPU_FAN_MODE s))) = Inr (Some 0x30))"
    using r c by (simp add: m)
qed

theorem get_fan_info_mode_witness:
  "(\<exists>info. fst (get_fan_info
      (sim (Some EC_SYS_PATH) (Present (zeros[0x22 := 0x08, 0x21 := 0x20])) Absent [])) = Inr info \<and>
      mode info = ''max'') \<and>
   (\<exists>info. fst (get_fan_info
      (sim (Some EC_SYS_PATH) (Present (zeros[0x22 := 0x04, 0x21 := 0x10])) Absent [])) = Inr info \<and>
      mode info = ''auto'') \<and>
   (\<exists>info. fst (get_fan_info
      (sim (Some EC_SYS_PATH) (Present (zeros[0x22 := 0x0C, 0x21 := 0x30])) Absent [])) = Inr info \<and>
      mode info = ''custom'') \<and>
   (\<exists>info. fst (get_fan_info
      (sim (Some EC_SYS_PATH) (Present (zeros[0x22 := 0x04, 0x21 := 0x20])) Absent [])) = Inr info \<and>
      mode info = ''unknown'') \<and>
   (\<exists>info. fst (get_fan_info
      (sim (Some EC_SYS_PATH) (Present (zeros[0x22 := 0x08, 0x21 := 0x20])) Absent [True])) = Inr info \<and>
      mode info = ''unknown'') \<and>
   node_of (first_probe (as_user 1000 (sim None Denied Absent [])))
     (env (as_user 1000 (sim None Denied Absent []))) = Denied \<and>
   fst (get_fan_info (as_user 1000 (sim None Denied Absent []))) = Inl PermissionError"
  using get_fan_info_mode
          [of "sim (Some EC_SYS_PATH) (Present (zeros[0x22 := 0x08, 0x21 := 0x20])) Absent []"]
        get_fan_info_mode
          [of "sim (Some EC_SYS_PATH) (Present (zeros[0x22 := 0x04, 0x21 := 0x10])) Absent []"]
        get_fan_info_mode
          [of "sim (Some EC_SYS_PATH) (Present (zeros[0x22 := 0x0C, 0x21 := 0x30])) Absent []"]
        get_fan_info_mode
          [of "sim (Some EC_SYS_PATH) (Present (zeros[0x22 := 0x04, 0x21 := 0x20])) Absent []"]
        get_fan_info_mode
          [of "sim (Some EC_SYS_PATH) (Present (zeros[0x22 := 0x08, 0x21 := 0x20])) Absent [True]"]
        get_fan_info_mode [of "as_user 1000 (sim None Denied Absent [])"]
  by (simp add: run_defs)

subsection \<open>Custom percents read back\<close>

text \<open>
  Claim C5. On a quiet, reachable store, for a percent \<open>p\<close> in 0..100,
  \<^verbatim>\<open>set_custom_fans(p, p)\<close> returns \<^verbatim>\<open>True\<close> and a following
  \<^verbatim>\<open>get_fan_info\<close> returns a snapshot with the mode "custom" and both percents
  \<open>p\<close>.
\<close>

theorem custom_then_info:
  assumes "0 \<le> p" "p \<le> 100" "calm s xs"
  shows "fst (set_custom_fans p p s) = Inr True \<and>
         (\<exists>info. fst (get_fan_info (snd (set_custom_fans p p s))) = Inr info \<and>
                 mode info = ''custom'' \<and>
                 cpu_percent info = Some p \<and>
                 gpu_percent info = Some p)"
proof -
  obtain s5 where c: "set_custom_fans p p s = (Inr True, s5)"
    "calm s5
       (poke EC_GPU_FAN_PCT (word_of_int p) (poke EC_CPU_FAN_PCT (word_of_int p)
         (poke EC_CPU_FAN_MODE (word_of_int 0x0C) (poke EC_GPU_FAN_MODE (word_of_int 0x30)
           (poke EC_WRITE_ENABLE (word_of_int 0x11) xs)))))"
    using set_custom_fans_calm [OF assms(3,1,2)] by blast
  note k = poke_chain [OF assms(1,2), of "poke EC_WRITE_ENABLE (word_of_int 0x11) xs"]
  from get_fan_info_calm [OF c(2)] obtain info where
    i: "fst (get_fan_info s5) = Inr info"
       "mode info = mode_label (Some 0x0C) (Some 0x30)"
       "cpu_percent info = Some p" "gpu_percent info = Some p"
    unfolding k by blast
  have "mode info = ''custom''" using i(2) by (simp add: mode_label_def)
  with c(1) i show ?thesis by simp
qed

theorem custom_then_info_witness:
  "calm (sim None Absent (Present []) []) [] \<and>
   fst (set_custom_fans 100 100 (sim None Absent (Present []) [])) = Inr True \<and>
   (\<exists>info. fst (get_fan_info (snd (set_custom_fans 100 100 (sim None Absent (Present []) [])))) = Inr info \<and>
      mode info = ''custom'' \<and> cpu_percent info = Some 100 \<and> gpu_percent info = Some 100) \<and>
   calm (sim (Some EC_SYS_PATH) (Present zeros) Absent []) zeros \<and>
   (\<exists>info. fst (get_fan_info (snd (set_custom_fans 0 0 (sim (Some EC_SYS_PATH) (Present zeros) Absent [])))) = Inr info \<and>
      mode info = ''custom'' \<and> cpu_percent info = Some 0 \<and> gpu_percent info = Some 0)"
proof -
  have h: "calm (sim None Absent (Present []) []) []"
    by (simp add: calm_def store_of_def sim_def)
  have h': "calm (sim (Some EC_SYS_PATH) (Present zeros) Absent []) zeros"
    by (simp add: calm_def store_of_def sim_def node_of_def)
  show ?thesis
    using h h' custom_then_info [of 100 "sim None Absent (Present []) []" "[]"]
      custom_then_info [of 0 "sim (Some EC_SYS_PATH) (Present zeros) Absent []" zeros]
    by simp
qed

subsection \<open>Direct and estimated RPM\<close>

text \<open>
  Claim C6. In a \<^verbatim>\<open>get_fan_info\<close> that returns a snapshot, with the results of its
  reads named as the method names them: the direct RPM of a domain is absent when the low
  byte is unreadable; otherwise it is \<open>(hi << 8) | lo\<close> when the high byte is readable
  and the low byte alone when it is not, and a value of 0 or above 65000 is dropped. The
  reported RPM is the direct one when there is one, else percent times 55 when the
  percent register was readable, else absent. (The reads named by the premises returned,
  so no read of a low or a high byte raised: the default branches below stand for a byte
  that could not be read.)
\<close>

theorem fan_rpm_direct_or_estimate:
  assumes "read_ec EC_CPU_FAN_MODE s = (Inr cm, s1)"
    and "read_ec EC_GPU_FAN_MODE s1 = (Inr gm, s2)"
    and "read_ec EC_CPU_FAN_PCT s2 = (Inr cp, s3)"
    and "read_ec EC_GPU_FAN_PCT s3 = (Inr gp, s4)"
    and "read_fan_rpm_ec EC_CPU_FAN_RPM_LO (Some EC_CPU_FAN_RPM_HI) s4 = (Inr cr, s5)"
    and "read_fan_rpm_ec EC_GPU_FAN_RPM_LO (Some EC_GPU_FAN_RPM_HI) s5 = (Inr gr, s6)"
    and "fst (get_fan_info s) = Inr info"
  shows "cr =
           (case fst (read_ec EC_CPU_FAN_RPM_LO s4) of
              Inr (Some lo) \<Rightarrow>
                (let val = (case fst (read_ec EC_CPU_FAN_RPM_HI (snd (read_ec EC_CPU_FAN_RPM_LO s4))) of
                              Inr (Some hi) \<Rightarrow> push_bit 8 hi OR lo
                            | _ \<Rightarrow> lo)
                 in if val = 0 \<or> val > 65000 then None else Some val)
            | _ \<Rightarrow> None) \<and>
         gr =
           (case fst (read_ec EC_GPU_FAN_RPM_LO s5) of
              Inr (Some lo) \<Rightarrow>
                (let val = (case fst (read_ec EC_GPU_FAN_RPM_HI (snd (read_ec EC_GPU_FAN_RPM_LO s5))) of
                              Inr (Some hi) \<Rightarrow> push_bit 8 hi OR lo
                            | _ \<Rightarrow> lo)
                 in if val = 0 \<or> val > 65000 then None else Some val)
            | _ \<Rightarrow> None) \<and>
         cpu_rpm info =
           (case cr of Some v \<Rightarrow> Some v
            | None \<Rightarrow> (case cp of Some p \<Rightarrow> Some (p * 55) | None \<Rightarrow> None)) \<and>
         gpu_rpm info =
           (case gr of Some v \<Rightarrow> Some v
            | None \<Rightarrow> (case gp of Some p \<Rightarrow> Some (p * 55) | None \<Rightarrow> None))"
proof -
  from assms(7) have "get_fan_info s = (Inr info, snd (get_fan_info s))"
    by (cases "get_fan_info s") simp
  from get_fan_info_InrD [OF this] assms(1-6)
  have i: "cpu_rpm info = rpm_or_estimate cr cp" "gpu_rpm info = rpm_or_estimate gr gp"
    by auto
  show ?thesis
    using read_fan_rpm_ec_direct [OF assms(5)] read_fan_rpm_ec_direct [OF assms(6)] i
    by (simp add: rpm_or_estimate_def)
qed

text \<open>
  A store whose CPU RPM bytes are 0x10 and 0x0e (3600) and whose GPU RPM bytes are 0
  with a GPU percent of 50: the CPU RPM is the direct value, the GPU RPM the estimate
  2750.
\<close>

theorem fan_rpm_direct_or_estimate_witness:
  "\<exists>info. fst (get_fan_info (sim (Some EC_SYS_PATH) (Present rpm_store) Absent [])) = Inr info \<and>
      cpu_rpm info = Some 3600 \<and> gpu_rpm info = Some 2750"
proof -
  let ?s0 = "sim (Some EC_SYS_PATH) (Present rpm_store) Absent []"
  let ?s1 = "snd (read_ec EC_CPU_FAN_MODE ?s0)"
  let ?s2 = "snd (read_ec EC_GPU_FAN_MODE ?s1)"
  let ?s3 = "snd (read_ec EC_CPU_FAN_PCT ?s2)"
  let ?s4 = "snd (read_ec EC_GPU_FAN_PCT ?s3)"
  let ?s5 = "snd (read_fan_rpm_ec EC_CPU_FAN_RPM_LO (Some EC_CPU_FAN_RPM_HI) ?s4)"
  let ?s6 = "snd (read_fan_rpm_ec EC_GPU_FAN_RPM_LO (Some EC_GPU_FAN_RPM_HI) ?s5)"
  have h1: "read_ec EC_CPU_FAN_MODE ?s0 = (Inr (Some 0), ?s1)" by (simp add: run_defs)
  have h2: "read_ec EC_GPU_FAN_MODE ?s1 = (Inr (Some 0), ?s2)" by (simp add: run_defs)
  have h3: "read_ec EC_CPU_FAN_PCT ?s2 = (Inr (Some 40), ?s3)" by (simp add: run_defs)
  have h4: "read_ec EC_GPU_FAN_PCT ?s3 = (Inr (Some 50), ?s4)" by (simp add: run_defs)
  have h5: "read_fan_rpm_ec EC_CPU_FAN_RPM_LO (Some EC_CPU_FAN_RPM_HI) ?s4 = (Inr (Some 3600), ?s5)"
    by (simp add: run_defs)
  have h6: "read_fan_rpm_ec EC_GPU_FAN_RPM_LO (Some EC_GPU_FAN_RPM_HI) ?s5 = (Inr None, ?s6)"
    by (simp add: run_defs)
  obtain info where i: "fst (get_fan_info ?s0) = Inr info"
    using get_fan_info_calm [of ?s0 rpm_store]
    by (auto simp: calm_def store_of_def sim_def node_of_def)
  from fan_rpm_direct_or_estimate [OF h1 h2 h3 h4 h5 h6 i]
  have "cpu_rpm info = Some 3600 \<and> gpu_rpm info = Some 2750" by simp
  with i show ?thesis by blast
qed

subsection \<open>Bounds of the reported RPM\<close>

text \<open>
  Claim C7 as stated fails: with the RPM bytes 0 and the percent register 0, the direct
  value is dropped and the estimate 0 times 55 is reported, so the field is literally 0.
\<close>

theorem fan_rpm_zero_counterexample:
  "fst (get_fan_info (sim (Some EC_SYS_PATH) (Present zeros) Absent [])) =
     Inr \<lparr>mode = ''unknown'', cpu_percent = Some 0, gpu_percent = Some 0,
          cpu_rpm = Some 0, gpu_rpm = Some 0, cooler_boost = Some False,
          cpu_cooler_boost = Some False, gpu_cooler_boost = Some False\<rparr>"
  by (simp add: run_defs)

text \<open>
  Claim C7, amended. In a snapshot that \<^verbatim>\<open>get_fan_info\<close> returns, the
  \<^verbatim>\<open>cpu_rpm\<close> and \<^verbatim>\<open>gpu_rpm\<close> fields are never negative and never greater than
  65000, and a field is 0 if and only if the direct RPM read of that domain gave no value
  (unreadable, 0 or above 65000) and the percent register of that domain read 0: then the
  estimate 0 times 55 is reported.
\<close>

theorem fan_rpm_fields_bounded:
  assumes "read_ec EC_CPU_FAN_MODE s = (Inr cm, s1)"
    and "read_ec EC_GPU_FAN_MODE s1 = (Inr gm, s2)"
    and "read_ec EC_CPU_FAN_PCT s2 = (Inr cp, s3)"
    and "read_ec EC_GPU_FAN_PCT s3 = (Inr gp, s4)"
    and "read_fan_rpm_ec EC_CPU_FAN_RPM_LO (Some EC_CPU_FAN_RPM_HI) s4 = (Inr cr, s5)"
    and "read_fan_rpm_ec EC_GPU_FAN_RPM_LO (Some EC_GPU_FAN_RPM_HI) s5 = (Inr gr, s6)"
    and "fst (get_fan_info s) = Inr info"
  shows "(\<forall>v. cpu_rpm info = Some v \<longrightarrow> 0 \<le> v \<and> v \<le> 65000) \<and>
         (cpu_rpm info = Some 0 \<longleftrightarrow> cr = None \<and> cp = Some 0) \<and>
         (\<forall>v. gpu_rpm info = Some v \<longrightarrow> 0 \<le> v \<and> v \<le> 65000) \<and>
         (gpu_rpm info = Some 0 \<longleftrightarrow> gr = None \<and> gp = Some 0)"
proof -
  from assms(7) have "get_fan_info s = (Inr info, snd (get_fan_info s))"
    by (cases "get_fan_info s") simp
  from get_fan_info_InrD [OF this] assms(1-6)
  have i: "cpu_rpm info = rpm_or_estimate cr cp" "gpu_rpm info = rpm_or_estimate gr gp"
    by auto
  have cpr: "\<And>q. cp = Some q \<Longrightarrow> 0 \<le> q \<and> q \<le> 255"
    using read_ec_range [of EC_CPU_FAN_PCT s2] assms(3) by simp
  have gpr: "\<And>q. gp = Some q \<Longrightarrow> 0 \<le> q \<and> q \<le> 255"
    using read_ec_range [of EC_GPU_FAN_PCT s3] assms(4) by simp
  have crr: "\<And>w. cr = Some w \<Longrightarrow> 0 < w \<and> w \<le> 65000"
    using read_fan_rpm_ec_range assms(5) by blast
  have grr: "\<And>w. gr = Some w \<Longrightarrow> 0 < w \<and> w \<le> 65000"
    using read_fan_rpm_ec_range assms(6) by blast
  show ?thesis
    using rpm_or_estimate_bounds [of cr cp, OF crr cpr] rpm_or_estimate_bounds [of gr gp, OF grr gpr]
    by (simp only: i) blast
qed

theorem fan_rpm_fields_bounded_witness:
  "(\<exists>info. fst (get_fan_info (sim (Some EC_SYS_PATH) (Present zeros) Absent [])) = Inr info \<and>
      cpu_rpm info = Some 0 \<and> gpu_rpm info = Some 0) \<and>
   fst (read_fan_rpm_ec EC_CPU_FAN_RPM_LO (Some EC_CPU_FAN_RPM_HI)
      (snd (read_ec EC_GPU_FAN_PCT (snd (read_ec EC_CPU_FAN_PCT (snd (read_ec EC_GPU_FAN_MODE
        (snd (read_ec EC_CPU_FAN_MODE (sim (Some EC_SYS_PATH) (Present zeros) Absent [])))))))))) =
     Inr None \<and>
   fst (read_ec EC_CPU_FAN_PCT (snd (read_ec EC_GPU_FAN_MODE
        (snd (read_ec EC_CPU_FAN_MODE (sim (Some EC_SYS_PATH) (Present zeros) Absent [])))))) =
     Inr (Some 0)"
proof -
  let ?s0 = "sim (Some EC_SYS_PATH) (Present zeros) Absent []"
  let ?s1 = "snd (read_ec EC_CPU_FAN_MODE ?s0)"
  let ?s2 = "snd (read_ec EC_GPU_FAN_MODE ?s1)"
  let ?s3 = "snd (read_ec EC_CPU_FAN_PCT ?s2)"
  let ?s4 = "snd (read_ec EC_GPU_FAN_PCT ?s3)"
  let ?s5 = "snd (read_fan_rpm_ec EC_CPU_FAN_RPM_LO (Some EC_CPU_FAN_RPM_HI) ?s4)"
  let ?s6 = "snd (read_fan_rpm_ec EC_GPU_FAN_RPM_LO (Some EC_GPU_FAN_RPM_HI) ?s5)"
  have h1: "read_ec EC_CPU_FAN_MODE ?s0 = (Inr (Some 0), ?s1)" by (simp add: run_defs)
  have h2: "read_ec EC_GPU_FAN_MODE ?s1 = (Inr (Some 0), ?s2)" by (simp add: run_defs)
  have h3: "read_ec EC_CPU_FAN_PCT ?s2 = (Inr (Some 0), ?s3)" by (simp add: run_defs)
  have h4: "read_ec EC_GPU_FAN_PCT ?s3 = (Inr (Some 0), ?s4)" by (simp add: run_defs)
  have h5: "read_fan_rpm_ec EC_CPU_FAN_RPM_LO (Some EC_CPU_FAN_RPM_HI) ?s4 = (Inr None, ?s5)"
    by (simp add: run_defs)
  have h6: "read_fan_rpm_ec EC_GPU_FAN_RPM_LO (Some EC_GPU_FAN_RPM_HI) ?s5 = (Inr None, ?s6)"
    by (simp add: run_defs)
  obtain info where i: "fst (get_fan_info ?s0) = Inr info"
    using get_fan_info_calm [of ?s0 zeros]
    by (auto simp: calm_def store_of_def sim_def node_of_def)
  from fan_rpm_fields_bounded [OF h1 h2 h3 h4 h5 h6 i]
  have "cpu_rpm info = Some 0 \<and> gpu_rpm info = Some 0" by simp
  moreover have "fst (read_fan_rpm_ec EC_CPU_FAN_RPM_LO (Some EC_CPU_FAN_RPM_HI) ?s4) = Inr None"
    by (simp add: run_defs)
  moreover have "fst (read_ec EC_CPU_FAN_PCT ?s2) = Inr (Some 0)"
    by (simp add: run_defs)
  ultimately show ?thesis using i by blast
qed

subsection \<open>A cached path that vanished\<close>

text \<open>
  Claim C8 as stated fails: with \<open>EC_SYS_PATH\<close> cached and its node gone while the
  node at \<open>EC_ACPI_PATH\<close> is there, a discovery would select \<open>EC_ACPI_PATH\<close>, but a
  read and a write report failure after one probe of the cached path, keep the cached
  path and never probe the other candidate.
\<close>

theorem stale_path_not_rediscovered_counterexample:
  "ec_path (self (sim (Some EC_SYS_PATH) Absent (Present zeros) [])) = Some EC_SYS_PATH \<and>
   node_of EC_SYS_PATH (env (sim (Some EC_SYS_PATH) Absent (Present zeros) [])) = Absent \<and>
   fst (detect_ec_interface (sim (Some EC_SYS_PATH) Absent (Present zeros) [])) = Inr True \<and>
   ec_path (self (snd (detect_ec_interface (sim (Some EC_SYS_PATH) Absent (Present zeros) []))))
     = Some EC_ACPI_PATH \<and>
   fst (read_ec EC_CPU_FAN_MODE (sim (Some EC_SYS_PATH) Absent (Present zeros) [])) = Inr None \<and>
   ec_path (self (snd (read_ec EC_CPU_FAN_MODE (sim (Some EC_SYS_PATH) Absent (Present zeros) []))))
     = Some EC_SYS_PATH \<and>
   events (env (snd (read_ec EC_CPU_FAN_MODE (sim (Some EC_SYS_PATH) Absent (Present zeros) []))))
     = [Probe EC_SYS_PATH] \<and>
   fst (write_ec EC_WRITE_ENABLE 0x11 (sim (Some EC_SYS_PATH) Absent (Present zeros) []))
     = Inr False \<and>
   ec_path (self (snd (write_ec EC_WRITE_ENABLE 0x11 (sim (Some EC_SYS_PATH) Absent (Present zeros) []))))
     = Some EC_SYS_PATH \<and>
   events (env (snd (write_ec EC_WRITE_ENABLE 0x11 (sim (Some EC_SYS_PATH) Absent (Present zeros) []))))
     = [Probe EC_SYS_PATH]"
  by (simp add: run_defs)

text \<open>
  Claim C8, amended. When a path is cached and its node no longer exists, a register
  read returns \<^verbatim>\<open>None\<close> and a register write returns \<^verbatim>\<open>False\<close> after a single
  existence probe of the cached path; the discovery is not run again and the attributes
  of the object stay as they were.
\<close>

theorem stale_path_fails_without_discovery:
  "ec_path (self s) = Some p \<Longrightarrow> node_of p (env s) = Absent \<Longrightarrow>
   read_ec off s = (Inr None, emit (Probe p) s) \<and>
   write_ec off v s = (Inr False, emit (Probe p) s) \<and>
   self (emit (Probe p) s) = self s"
  by (simp add: read_ec_def write_ec_def and_then_def ret_def resolve_def cached_exists_def
        path_exists_def emit_def)

theorem stale_path_fails_without_discovery_witness:
  "ec_path (self (sim (Some EC_SYS_PATH) Absent (Present zeros) [])) = Some EC_SYS_PATH \<and>
   node_of EC_SYS_PATH (env (sim (Some EC_SYS_PATH) Absent (Present zeros) [])) = Absent \<and>
   read_ec EC_CPU_FAN_MODE (sim (Some EC_SYS_PATH) Absent (Present zeros) []) =
     (Inr None, emit (Probe EC_SYS_PATH) (sim (Some EC_SYS_PATH) Absent (Present zeros) [])) \<and>
   write_ec EC_CPU_FAN_MODE 0x08 (sim (Some EC_SYS_PATH) Absent (Present zeros) []) =
     (Inr False, emit (Probe EC_SYS_PATH) (sim (Some EC_SYS_PATH) Absent (Present zeros) []))"
proof -
  have h1: "ec_path (self (sim (Some EC_SYS_PATH) Absent (Present zeros) [])) = Some EC_SYS_PATH"
    by (simp add: sim_def)
  have h2: "node_of EC_SYS_PATH (env (sim (Some EC_SYS_PATH) Absent (Present zeros) [])) = Absent"
    by (simp add: sim_def node_of_def)
  show ?thesis
    using h1 h2 stale_path_fails_without_discovery [OF h1 h2, of EC_CPU_FAN_MODE "0x08"]
    by simp
qed

subsection \<open>Single-argument entry points\<close>

text \<open>
  Claim C10. The single-argument entry points are the two-argument ones with the
  argument given twice: the same outcome and the same state afterwards, trace included.
\<close>

theorem single_argument_entry_points:
  "set_cooler_boost b s = set_cooler_boost_individual b b s \<and>
   set_custom_fan p s = set_custom_fans p p s"
  by (simp add: set_cooler_boost_def set_custom_fan_def)

text \<open>
  Both pairs at a concrete store: the boost on a store whose gate opens, and a custom
  percent that the range check of the two-argument method rejects.
\<close>

theorem single_argument_entry_points_witness:
  "set_cooler_boost True (sim None (Present zeros) Absent []) =
     set_cooler_boost_individual True True (sim None (Present zeros) Absent []) \<and>
   fst (set_cooler_boost True (sim None (Present zeros) Absent [])) = Inr True \<and>
   sys_io (env (snd (set_cooler_boost True (sim None (Present zeros) Absent [])))) =
     Present ((replicate 64 0)[0x03 := 0x11, 0x22 := 0x08, 0x21 := 0x20]) \<and>
   set_custom_fan 101 (sim None (Present zeros) Absent []) =
     set_custom_fans 101 101 (sim None (Present zeros) Absent []) \<and>
   fst (set_custom_fan 101 (sim None (Present zeros) Absent [])) = Inr False"
  using single_argument_entry_points [of True "sim None (Present zeros) Absent []" 101]
  by (simp add: run_defs)

end
